theory Spec2Isabelle
  imports Complex_Main "HOL-Library.Word"
begin

section \<open>Python values and exceptions shared by both modules\<close>

text \<open>
  Configuration values come out of a JSON dictionary through \<open>dict.get(key, None)\<close>:
  they are \<open>None\<close>, an integer or a string. Exceptions are values of one datatype;
  \<open>ConnectionRefusedError\<close> is a subclass of \<open>OSError\<close> in Python, which
  \<open>is_OSError\<close> records for the \<open>except OSError\<close> handlers.
\<close>

datatype pyval = PNone | PInt int | PStr string

datatype error =
    ValueError | TypeError | OverflowError | RuntimeError | NameError
  | ConnectionRefusedError | OSError | UnicodeDecodeError | StructError | OtherError

fun is_OSError :: "error \<Rightarrow> bool" where
  "is_OSError ConnectionRefusedError = True"
| "is_OSError OSError = True"
| "is_OSError _ = False"

text \<open>Python truthiness, as \<open>not val\<close> reads it.\<close>

fun truthy :: "pyval \<Rightarrow> bool" where
  "truthy PNone = False"
| "truthy (PInt n) = (n \<noteq> 0)"
| "truthy (PStr s) = (s \<noteq> [])"

subsection \<open>The built-in \<open>int(str)\<close>\<close>

text \<open>
  \<open>int(s)\<close> on a string strips surrounding whitespace, accepts one optional sign and
  then decimal digits, where single underscores may separate digits. Anything else raises
  \<open>ValueError\<close>, which is \<open>None\<close> here. The whitespace of \<open>int\<close> is the ASCII
  whitespace (tab, line feed, vertical tab, form feed, carriage return, space) and, of the
  other 8-bit characters, \<open>U+0085\<close> and \<open>U+00A0\<close>; the separators \<open>U+001C\<close> to
  \<open>U+001F\<close>, which \<open>str.strip\<close> removes, are not among them. A string of more than
  4300 digits is refused as well (the limit of \<open>sys.int_max_str_digits\<close>).
\<close>

definition is_digit :: "char \<Rightarrow> bool" where
  "is_digit c = (c \<in> set ''0123456789'')"

definition is_space :: "char \<Rightarrow> bool" where
  "is_space c = ((of_char c :: nat) \<in> set [9, 10, 11, 12, 13, 32, 133, 160])"

definition digit_val :: "char \<Rightarrow> nat" where
  "digit_val c = of_char c - 48"

definition py_strip :: "string \<Rightarrow> string" where
  "py_strip s = rev (dropWhile is_space (rev (dropWhile is_space s)))"

fun digits_value :: "nat \<Rightarrow> string \<Rightarrow> nat option" where
  "digits_value acc [] = Some acc"
| "digits_value acc [c] = (if is_digit c then Some (10 * acc + digit_val c) else None)"
| "digits_value acc (c # c' # cs) =
     (if is_digit c then digits_value (10 * acc + digit_val c) (c' # cs)
      else if c = CHR ''_'' \<and> is_digit c' then digits_value acc (c' # cs)
      else None)"

definition unsigned_value :: "string \<Rightarrow> nat option" where
  "unsigned_value s =
     (case s of [] \<Rightarrow> None
      | c # cs \<Rightarrow>
          if is_digit c \<and> length (filter is_digit s) \<le> 4300 then digits_value 0 s else None)"

definition py_int_str :: "string \<Rightarrow> int option" where
  "py_int_str s =
     (case py_strip s of
        [] \<Rightarrow> None
      | c # cs \<Rightarrow>
          if c = CHR ''-'' then map_option (\<lambda>n. - int n) (unsigned_value cs)
          else if c = CHR ''+'' then map_option int (unsigned_value cs)
          else map_option int (unsigned_value (c # cs)))"

text \<open>\<open>int(val)\<close> on a configuration value; \<open>int(None)\<close> is a \<open>TypeError\<close>.\<close>

fun py_int :: "pyval \<Rightarrow> error + int" where
  "py_int PNone = Inl TypeError"
| "py_int (PInt n) = Inr n"
| "py_int (PStr s) = (case py_int_str s of None \<Rightarrow> Inl ValueError | Some n \<Rightarrow> Inr n)"

section \<open>Address/Config Validator (KNXControl.py)\<close>

subsection \<open>\<open>is_valid_port\<close>\<close>

text \<open>
  The source:
  \<^verbatim>\<open>
  if not val: return False
  if type(val) == int and 0 < val < 2 ** 16: return True
  else: return 0 < int(val) < 2 ** 16
  \<close>
  The conversion \<open>int(val)\<close> in the last line is not guarded, so its exception leaves
  the function.
\<close>

fun is_int :: "pyval \<Rightarrow> bool" where
  "is_int (PInt n) = True"
| "is_int _ = False"

fun int_of :: "pyval \<Rightarrow> int" where
  "int_of (PInt n) = n"
| "int_of _ = 0"

definition is_valid_port :: "pyval \<Rightarrow> error + bool" where
  "is_valid_port val =
     (if \<not> truthy val then Inr False
      else if is_int val \<and> 0 < int_of val \<and> int_of val < 2 ^ 16 then Inr True
      else (case py_int val of
              Inl e \<Rightarrow> Inl e
            | Inr n \<Rightarrow> Inr (0 < n \<and> n < 2 ^ 16)))"

subsection \<open>\<open>is_knx_address\<close> and the regular expression it matches\<close>

text \<open>
  \<open>re.match(r"\d{1,3}/\d{1,3}/\d{1,3}", val)\<close> anchors the pattern at the start of the
  string only. The pattern is a sequence of items, each a bounded repetition of digits or
  a literal character. \<open>match_item\<close> lists the remainders an item can leave, the
  greedy one first, as the backtracking matcher tries them; \<open>match_seq\<close> runs the items
  in order. \<open>re_match\<close> is the first remainder, \<open>None\<close> when there is no match.
\<close>

datatype re_item = Digits nat nat | Lit char

fun match_item :: "re_item \<Rightarrow> string \<Rightarrow> string list" where
  "match_item (Digits lo hi) s =
     (let n = length (takeWhile is_digit (take hi s))
      in map (\<lambda>k. drop k s) (rev [lo ..< Suc n]))"
| "match_item (Lit c) [] = []"
| "match_item (Lit c) (x # xs) = (if x = c then [xs] else [])"

fun match_seq :: "re_item list \<Rightarrow> string \<Rightarrow> string list" where
  "match_seq [] s = [s]"
| "match_seq (i # is) s = concat (map (match_seq is) (match_item i s))"

definition re_match :: "re_item list \<Rightarrow> string \<Rightarrow> string option" where
  "re_match pat s = (case match_seq pat s of [] \<Rightarrow> None | r # rs \<Rightarrow> Some r)"

definition knx_pattern :: "re_item list" where
  "knx_pattern = [Digits 1 3, Lit CHR ''/'', Digits 1 3, Lit CHR ''/'', Digits 1 3]"

text \<open>
  \<^verbatim>\<open>
  if not val: return False
  return re.match(r"\d{1,3}/\d{1,3}/\d{1,3}", val) is not None
  \<close>
  \<open>re.match\<close> raises \<open>TypeError\<close> on a value that is not a string.
\<close>

fun is_knx_address :: "pyval \<Rightarrow> error + bool" where
  "is_knx_address PNone = Inr False"
| "is_knx_address (PInt n) = (if n = 0 then Inr False else Inl TypeError)"
| "is_knx_address (PStr s) =
     (if s = [] then Inr False else Inr (re_match knx_pattern s \<noteq> None))"

text \<open>
  The pattern in the words of the specification: the string starts with three groups of
  one to three digits separated by slashes; what follows is not looked at.
\<close>

definition digit_group :: "string \<Rightarrow> bool" where
  "digit_group a = (1 \<le> length a \<and> length a \<le> 3 \<and> list_all is_digit a)"

definition knx_prefix_spec :: "string \<Rightarrow> bool" where
  "knx_prefix_spec s =
     (\<exists>a b c rest. s = a @ ''/'' @ b @ ''/'' @ c @ rest
        \<and> digit_group a \<and> digit_group b \<and> digit_group c)"

section \<open>Automation bus listener (KNXControl.py)\<close>

subsection \<open>Construction\<close>

text \<open>
  The fields that \<open>__init__\<close> reads out of the \<open>control/KNX\<close> section with
  \<open>dict.get\<close>; a missing key is \<open>None\<close>, a missing \<open>enabled\<close> is \<open>False\<close>.
\<close>

record knx_config =
  cfg_enabled :: bool
  cfg_gatewayIP :: pyval
  cfg_gatewayPort :: pyval
  cfg_chargeNowDurationAddress :: pyval
  cfg_chargeNowRateAddress :: pyval
  cfg_chargeNowDurationDefault :: pyval

text \<open>
  An address attribute holds either the configured value as it was read, or the
  \<open>knxdclient.GroupAddress\<close> that \<open>group_address_from_string\<close> built from it. Equality
  of the two kinds is never true, as in Python.
\<close>

datatype address = GroupAddress int int int | Unconverted pyval

text \<open>\<open>s.split('/')\<close>: a string without the separator is one segment, also the empty one.\<close>

fun split_on :: "char \<Rightarrow> string \<Rightarrow> string list" where
  "split_on c [] = [[]]"
| "split_on c (x # xs) =
     (if x = c then [] # split_on c xs
      else (case split_on c xs of [] \<Rightarrow> [[x]] | w # ws \<Rightarrow> (x # w) # ws))"

text \<open>
  \<^verbatim>\<open>
  adr_tuple = (int(n) for n in s.split('/'))
  return knxdclient.GroupAddress(*adr_tuple)
  \<close>
  The generator is consumed before the call, so a segment that is no integer raises
  \<open>ValueError\<close> first; a number of segments other than three is a \<open>TypeError\<close> of
  the constructor.
\<close>

definition group_address_from_string :: "string \<Rightarrow> error + address" where
  "group_address_from_string s =
     (let segs = map py_int_str (split_on CHR ''/'' s)
      in if None \<in> set segs then Inl ValueError
         else (case map the segs of
                 [a, b, c] \<Rightarrow> Inr (GroupAddress a b c)
               | _ \<Rightarrow> Inl TypeError))"

text \<open>
  The property \<open>is_properly_configured\<close>. \<open>ipaddress.ip_address\<close> belongs to the
  standard library: \<open>ip_ok v\<close> says that it accepts \<open>v\<close>; its \<open>ValueError\<close> is caught
  and gives \<open>False\<close>. The port and the rate address are checked next; the duration
  address is not looked at. The \<open>debugLog\<close> lines of this property are left out.
\<close>

definition is_properly_configured :: "(pyval \<Rightarrow> bool) \<Rightarrow> knx_config \<Rightarrow> error + bool" where
  "is_properly_configured ip_ok cfg =
     (if \<not> ip_ok (cfg_gatewayIP cfg) then Inr False
      else (case is_valid_port (cfg_gatewayPort cfg) of
              Inl e \<Rightarrow> Inl e
            | Inr False \<Rightarrow> Inr False
            | Inr True \<Rightarrow>
                (case is_knx_address (cfg_chargeNowRateAddress cfg) of
                   Inl e \<Rightarrow> Inl e
                 | Inr False \<Rightarrow> Inr False
                 | Inr True \<Rightarrow> Inr True)))"

text \<open>
  \<^verbatim>\<open>
  if is_knx_address(self.chargeNowRateAddress):
      self.chargeNowRateAddress = self.group_address_from_string(self.chargeNowRateAddress)
  \<close>
  and the same for the duration address: a value that is no KNX address stays as it is.
\<close>

definition convert_address :: "pyval \<Rightarrow> error + address" where
  "convert_address v =
     (case is_knx_address v of
        Inl e \<Rightarrow> Inl e
      | Inr False \<Rightarrow> Inr (Unconverted v)
      | Inr True \<Rightarrow> (case v of PStr s \<Rightarrow> group_address_from_string s | _ \<Rightarrow> Inl TypeError))"

record knx_control =
  gatewayIP :: pyval
  gatewayPort :: pyval
  chargeNowDurationAddress :: address
  chargeNowRateAddress :: address
  chargeNowDuration :: pyval

text \<open>
  \<open>__init__\<close>: a disabled module is released and nothing else happens; a module that is
  not properly configured raises \<open>RuntimeError\<close>; otherwise the addresses are converted
  and the server thread is started.
\<close>

datatype init_result = Released | Started knx_control

definition knx_init :: "(pyval \<Rightarrow> bool) \<Rightarrow> knx_config \<Rightarrow> error + init_result" where
  "knx_init ip_ok cfg =
     (if \<not> cfg_enabled cfg then Inr Released
      else (case is_properly_configured ip_ok cfg of
              Inl e \<Rightarrow> Inl e
            | Inr False \<Rightarrow> Inl RuntimeError
            | Inr True \<Rightarrow>
                (case convert_address (cfg_chargeNowRateAddress cfg) of
                   Inl e \<Rightarrow> Inl e
                 | Inr ra \<Rightarrow>
                     (case convert_address (cfg_chargeNowDurationAddress cfg) of
                        Inl e \<Rightarrow> Inl e
                      | Inr da \<Rightarrow>
                          Inr (Started \<lparr> gatewayIP = cfg_gatewayIP cfg,
                                         gatewayPort = cfg_gatewayPort cfg,
                                         chargeNowDurationAddress = da,
                                         chargeNowRateAddress = ra,
                                         chargeNowDuration = cfg_chargeNowDurationDefault cfg \<rparr>)))))"

subsection \<open>Telegram dispatch\<close>

datatype apdu_type = READ | WRITE | RESPONSE

datatype payload = KNXGroupAPDU apdu_type "8 word list" | OtherPayload

record packet =
  dst :: address
  payload :: payload

fun payload_value :: "payload \<Rightarrow> 8 word list" where
  "payload_value (KNXGroupAPDU t v) = v"
| "payload_value OtherPayload = []"

text \<open>
  \<^verbatim>\<open>
  return packet.dst == dst and type(packet.payload) == knxdclient.KNXGroupAPDU
         and packet.payload.type == knxdclient.KNXDAPDUType.WRITE
  \<close>
\<close>

definition is_valid_chargenow_cmd :: "packet \<Rightarrow> address \<Rightarrow> bool" where
  "is_valid_chargenow_cmd p d =
     (dst p = d \<and> (case payload p of KNXGroupAPDU t v \<Rightarrow> t = WRITE | OtherPayload \<Rightarrow> False))"

text \<open>
  A Python float is a finite number, an infinity or a NaN. \<open>int(x)\<close> truncates a finite
  number towards zero, raises \<open>OverflowError\<close> on an infinity and \<open>ValueError\<close> on a
  NaN. The rounding of the 32-bit encoding is the decoder's business: what it returns is a
  number already.
\<close>

datatype pyfloat = FNum real | FInf | FNan

fun py_trunc :: "pyfloat \<Rightarrow> error + int" where
  "py_trunc (FNum r) = Inr (if 0 \<le> r then \<lfloor>r\<rfloor> else \<lceil>r\<rceil>)"
| "py_trunc FInf = Inl OverflowError"
| "py_trunc FNan = Inl ValueError"

text \<open>The calls the handler makes on the host controller, in the order it makes them.\<close>

datatype master_call =
    DebugLog nat
  | ResetChargeNowAmps
  | SetChargeNowTimeEnd pyval
  | SetChargeNowAmps int

fun is_debugLog :: "master_call \<Rightarrow> bool" where
  "is_debugLog (DebugLog n) = True"
| "is_debugLog _ = False"

definition session_calls :: "master_call list \<Rightarrow> master_call list" where
  "session_calls cs = filter (\<lambda>c. \<not> is_debugLog c) cs"

text \<open>
  \<open>knx_packet_handler\<close>. The two decoders of \<open>knxdclient.decode_value\<close>, for
  \<open>KNXDPT.FLOAT32\<close> and \<open>KNXDPT.UINT16\<close>, are parameters: they belong to the bus
  client library and may raise. The result is the list of calls made on the controller and
  either the exception that left the handler or the listener's attributes afterwards.
\<close>

definition knx_packet_handler ::
  "(8 word list \<Rightarrow> error + pyfloat) \<Rightarrow> (8 word list \<Rightarrow> error + int) \<Rightarrow>
   knx_control \<Rightarrow> packet \<Rightarrow> master_call list \<times> (error + knx_control)" where
  "knx_packet_handler decode_FLOAT32 decode_UINT16 self p =
     (let received = [DebugLog 11, DebugLog 11] in
      if is_valid_chargenow_cmd p (chargeNowRateAddress self) then
        (case decode_FLOAT32 (payload_value (payload p)) of
           Inl e \<Rightarrow> (received, Inl e)
         | Inr x \<Rightarrow>
             (case py_trunc x of
                Inl e \<Rightarrow> (received, Inl e)
              | Inr amps \<Rightarrow>
                  if amps = 0
                  then (received @ [DebugLog 1, ResetChargeNowAmps], Inr self)
                  else (received @ [DebugLog 1, SetChargeNowTimeEnd (chargeNowDuration self),
                                   SetChargeNowAmps amps], Inr self)))
      else if is_valid_chargenow_cmd p (chargeNowDurationAddress self) then
        (case decode_UINT16 (payload_value (payload p)) of
           Inl e \<Rightarrow> (received, Inl e)
         | Inr duration \<Rightarrow>
             if duration \<le> 0
             then (received @ [DebugLog 1, ResetChargeNowAmps], Inr self)
             else (received @ [DebugLog 8], Inr (self\<lparr>chargeNowDuration := PInt duration\<rparr>)))
      else (received @ [DebugLog 8], Inr self))"

subsection \<open>The reconnect loop\<close>

text \<open>
  One pass through the body of \<open>while True\<close> in \<open>knx_server_loop\<close> either raises in
  \<open>connection.connect\<close>, in \<open>connection.open_group_socket\<close> or in the awaited
  \<open>run_task\<close>, or \<open>run_task\<close> returns. What the gateway does in pass \<open>i\<close> is given
  from outside, as \<open>env i\<close>.
\<close>

datatype attempt =
    ConnectRaises error
  | OpenSocketRaises error
  | RunRaises error
  | RunReturns

datatype knx_event =
    Log nat
  | CreateConnection
  | RegisterHandler
  | Connect
  | CreateRunTask
  | OpenGroupSocket
  | AwaitRunTask
  | Sleep nat

fun try_events :: "attempt \<Rightarrow> knx_event list" where
  "try_events (ConnectRaises e) = [Log 8, Connect]"
| "try_events (OpenSocketRaises e) =
     [Log 8, Connect, Log 8, CreateRunTask, Log 8, OpenGroupSocket]"
| "try_events (RunRaises e) =
     [Log 8, Connect, Log 8, CreateRunTask, Log 8, OpenGroupSocket, Log 8, AwaitRunTask]"
| "try_events RunReturns =
     [Log 8, Connect, Log 8, CreateRunTask, Log 8, OpenGroupSocket, Log 8, AwaitRunTask]"

fun raised :: "attempt \<Rightarrow> error option" where
  "raised (ConnectRaises e) = Some e"
| "raised (OpenSocketRaises e) = Some e"
| "raised (RunRaises e) = Some e"
| "raised RunReturns = None"

text \<open>
  \<^verbatim>\<open>
  except OSError as e:
      self.master.debugLog(2, ...); await asyncio.sleep(30)
  except:
      self.master.debugLog(2, ...); await asyncio.sleep(1)
  \<close>
\<close>

fun except_events :: "error option \<Rightarrow> knx_event list" where
  "except_events None = []"
| "except_events (Some e) = (if is_OSError e then [Log 2, Sleep 30] else [Log 2, Sleep 1])"

text \<open>
  The loop with fuel. Its state is the number of the next pass and the events so far. The
  body has no \<open>break\<close> and no \<open>return\<close>, and both handlers fall through to the next
  pass: a pass appends the events of the \<open>try\<close> block and of the handler that ran, and
  the loop goes on. \<open>Running\<close> is the state of a loop that has used up its fuel without
  having returned; \<open>Returned\<close> would be the state of a loop that has left \<open>while True\<close>.
\<close>

datatype loop_state = Running nat "knx_event list" | Returned "knx_event list"

fun events :: "loop_state \<Rightarrow> knx_event list" where
  "events (Running i tr) = tr"
| "events (Returned tr) = tr"

fun while_True :: "nat \<Rightarrow> (nat \<Rightarrow> attempt) \<Rightarrow> loop_state \<Rightarrow> loop_state" where
  "while_True 0 env s = s"
| "while_True (Suc fuel) env (Running i tr) =
     while_True fuel env
       (Running (Suc i) (tr @ try_events (env i) @ except_events (raised (env i))))"
| "while_True (Suc fuel) env (Returned tr) = Returned tr"

text \<open>
  \<open>knx_server_loop\<close>: the client is created and the handler registered, then the loop
  runs.
\<close>

definition knx_server_loop :: "nat \<Rightarrow> (nat \<Rightarrow> attempt) \<Rightarrow> loop_state" where
  "knx_server_loop fuel env =
     while_True fuel env (Running 0 [Log 8, CreateConnection, Log 8, RegisterHandler, Log 8])"

section \<open>Telemetry publisher (MQTTStatus.py)\<close>

text \<open>
  A queued message is the dictionary \<open>{"topic": topic, "payload": value}\<close>. The
  attributes of \<open>MQTTStatus\<close> that the two methods read or write are the fields of
  \<open>mqtt_status\<close>; \<open>msgRate\<close> is the dictionary from a topic to the time of its last
  allowed message. Times are what \<open>time.time()\<close> returns: floats, each taken as the
  real number it stands for. The \<open>debugLog\<close> lines only print and are left out.
\<close>

record mqtt_msg =
  topic :: string
  msg_payload :: pyval

record mqtt_status =
  connectionState :: nat
  msgQueue :: "mqtt_msg list"
  msgQueueBuffer :: "mqtt_msg list"
  msgQueueMax :: int
  msgRate :: "string \<rightharpoonup> real"
  msgRatePerTopic :: real
  password :: pyval
  status :: bool
  topicPrefix :: pyval
  username :: pyval

text \<open>
  What a call of a method does for its caller: it falls off its end (\<open>None\<close>), it
  returns a boolean, or an exception leaves it.
\<close>

datatype ret = ReturnsNone | Returns bool | Raises error

text \<open>
  \<^verbatim>\<open>
  topic = self.topicPrefix + "/" + str(twcid.decode("utf-8"))
  topic = topic + "/" + key
  \<close>
  A prefix that is not a string makes the first concatenation a \<open>TypeError\<close>, before
  the identifier is decoded. The decoder of \<open>bytes.decode\<close> is a parameter; \<open>None\<close>
  is its \<open>UnicodeDecodeError\<close>.
\<close>

definition make_topic ::
  "(8 word list \<Rightarrow> string option) \<Rightarrow> mqtt_status \<Rightarrow> 8 word list \<Rightarrow> string \<Rightarrow> error + string" where
  "make_topic decode self twcid key =
     (case topicPrefix self of
        PStr prefix \<Rightarrow>
          (case decode twcid of
             None \<Rightarrow> Inl UnicodeDecodeError
           | Some d \<Rightarrow> Inr (prefix @ ''/'' @ d @ ''/'' @ key))
      | _ \<Rightarrow> Inl TypeError)"

text \<open>
  The rate limiter. \<open>t1\<close> is what the first call of \<open>time.time()\<close> in \<open>setStatus\<close>
  returns and \<open>t2\<close> what the second returns, which only the branch of a known topic
  whose interval has passed makes. The difference of the reading and the recorded time is
  a floating-point subtraction, which rounds its result: \<open>fsub\<close> is that subtraction,
  given from outside, and the comparison with \<open>msgRatePerTopic\<close> is exact. The result is
  \<open>None\<close> when the message is dampened, and the updated dictionary otherwise.
  \<^verbatim>\<open>
  if (topic in self.msgRate):
    if ((self.time.time() - self.msgRate[topic]) < self.msgRatePerTopic):
      return True
    else:
      self.msgRate[topic] = self.time.time()
  else:
    self.msgRate[topic] = self.time.time()
  \<close>
\<close>

definition rate_limit ::
  "(real \<Rightarrow> real \<Rightarrow> real) \<Rightarrow> real \<Rightarrow> real \<Rightarrow> mqtt_status \<Rightarrow> string \<Rightarrow>
   (string \<rightharpoonup> real) option" where
  "rate_limit fsub t1 t2 self tp =
     (case msgRate self tp of
        Some sent \<Rightarrow>
          if fsub t1 sent < msgRatePerTopic self then None
          else Some ((msgRate self)(tp \<mapsto> t2))
      | None \<Rightarrow> Some ((msgRate self)(tp \<mapsto> t1)))"

text \<open>
  \<open>del xs[:k]\<close>: a negative \<open>k\<close> counts from the end of the list, and a bound outside the
  list is clipped.
\<close>

definition del_prefix :: "int \<Rightarrow> 'a list \<Rightarrow> 'a list" where
  "del_prefix k xs =
     (if 0 \<le> k then drop (nat k) xs else drop (nat (int (length xs) + k)) xs)"

text \<open>
  \<^verbatim>\<open>
  self.msgQueue.append(msg.copy())
  if (len(self.msgQueue) > (self.msgQueueMax + 8)):
    del self.msgQueue[:self.msgQueueMax]
  \<close>
\<close>

definition enqueue :: "mqtt_status \<Rightarrow> mqtt_msg \<Rightarrow> mqtt_status" where
  "enqueue self m =
     (let q = msgQueue self @ [m]
      in if int (length q) > msgQueueMax self + 8
         then self\<lparr>msgQueue := del_prefix (msgQueueMax self) q\<rparr>
         else self\<lparr>msgQueue := q\<rparr>)"

text \<open>
  The connect attempt at the end of \<open>setStatus\<close> calls into the MQTT client library:
  \<open>mqtt.Client()\<close>, \<open>username_pw_set\<close>, \<open>connect_async\<close>, then the assignment
  \<open>self.connectionState = 1\<close>, then \<open>loop_start\<close>. What the library does is given from
  outside: every call succeeds, or one of the calls before the assignment raises, or
  \<open>loop_start\<close> raises. The handlers catch \<open>ConnectionRefusedError\<close> and \<open>OSError\<close>
  and return \<open>False\<close>; any other exception leaves \<open>setStatus\<close>.
\<close>

datatype connect_outcome =
    ConnectStarted
  | RaisedBeforeConnecting error
  | RaisedInLoopStart error

fun handle_connect_error :: "error \<Rightarrow> ret" where
  "handle_connect_error e = (if is_OSError e then Returns False else Raises e)"

definition try_connect :: "connect_outcome \<Rightarrow> mqtt_status \<Rightarrow> ret \<times> mqtt_status" where
  "try_connect outcome self =
     (if connectionState self = 0 then
        (case outcome of
           ConnectStarted \<Rightarrow> (ReturnsNone, self\<lparr>connectionState := 1\<rparr>)
         | RaisedBeforeConnecting e \<Rightarrow> (handle_connect_error e, self)
         | RaisedInLoopStart e \<Rightarrow> (handle_connect_error e, self\<lparr>connectionState := 1\<rparr>))
      else (ReturnsNone, self))"

definition setStatus ::
  "(8 word list \<Rightarrow> string option) \<Rightarrow> (real \<Rightarrow> real \<Rightarrow> real) \<Rightarrow> real \<Rightarrow> real \<Rightarrow> connect_outcome \<Rightarrow>
   mqtt_status \<Rightarrow> 8 word list \<Rightarrow> string \<Rightarrow> pyval \<Rightarrow> ret \<times> mqtt_status" where
  "setStatus decode fsub t1 t2 outcome self twcid key val =
     (if \<not> status self then (ReturnsNone, self)
      else (case make_topic decode self twcid key of
              Inl e \<Rightarrow> (Raises e, self)
            | Inr tp \<Rightarrow>
                (case rate_limit fsub t1 t2 self tp of
                   None \<Rightarrow> (Returns True, self)
                 | Some rates \<Rightarrow>
                     try_connect outcome
                       (enqueue (self\<lparr>msgRate := rates\<rparr>)
                          \<lparr> topic = tp, msg_payload = val \<rparr>))))"

text \<open>
  \<open>mqttConnected\<close>, the \<open>on_connect\<close> callback. \<open>publish m\<close> is the exception that
  \<open>client.publish\<close> raises on message \<open>m\<close>, if any. The handler of the loop is written
  \<^verbatim>\<open>
      try:
        client.publish(msg['topic'], payload=msg['payload'])
      except e:
        ...
  \<close>
  where \<open>e\<close> is a name that is bound nowhere: when \<open>publish\<close> raises, Python evaluates
  the expression after \<open>except\<close> to find the class to match, and that evaluation raises
  \<open>NameError\<close>, which leaves the loop and the callback.
\<close>

datatype mqtt_event = Publish mqtt_msg | PublishFailed mqtt_msg | LoopStop | Disconnect

fun publish_all :: "(mqtt_msg \<Rightarrow> error option) \<Rightarrow> mqtt_msg list \<Rightarrow> mqtt_event list \<times> error option" where
  "publish_all publish [] = ([], None)"
| "publish_all publish (m # ms) =
     (case publish m of
        None \<Rightarrow> (let (evs, r) = publish_all publish ms in (Publish m # evs, r))
      | Some e \<Rightarrow> ([PublishFailed m], Some NameError))"

definition mqttConnected ::
  "(mqtt_msg \<Rightarrow> error option) \<Rightarrow> mqtt_status \<Rightarrow> ret \<times> mqtt_status \<times> mqtt_event list" where
  "mqttConnected publish self =
     (let self1 = self\<lparr>msgQueueBuffer := msgQueue self, msgQueue := []\<rparr>
      in (case publish_all publish (msgQueueBuffer self1) of
            (evs, Some e) \<Rightarrow> (Raises e, self1, evs)
          | (evs, None) \<Rightarrow>
              (ReturnsNone, self1\<lparr>msgQueueBuffer := [], connectionState := 0\<rparr>,
               evs @ [LoopStop, Disconnect])))"

text \<open>
  The publisher as a state machine. Its inputs are the calls of \<open>setStatus\<close>, the
  \<open>on_connect\<close> callback, and the failure of the asynchronous connect attempt. The
  module registers \<open>on_connect\<close> and no other callback, so none of its code runs on the
  last input and the attributes keep their values.
\<close>

datatype mqtt_input =
    CallSetStatus real real connect_outcome "8 word list" string pyval
  | OnConnect "mqtt_msg \<Rightarrow> error option"
  | AsyncConnectFailed

fun mqtt_step ::
  "(8 word list \<Rightarrow> string option) \<Rightarrow> (real \<Rightarrow> real \<Rightarrow> real) \<Rightarrow>
   mqtt_status \<Rightarrow> mqtt_input \<Rightarrow> mqtt_status" where
  "mqtt_step decode fsub self (CallSetStatus t1 t2 outcome twcid key val) =
     snd (setStatus decode fsub t1 t2 outcome self twcid key val)"
| "mqtt_step decode fsub self (OnConnect publish) = fst (snd (mqttConnected publish self))"
| "mqtt_step decode fsub self AsyncConnectFailed = self"

definition mqtt_run ::
  "(8 word list \<Rightarrow> string option) \<Rightarrow> (real \<Rightarrow> real \<Rightarrow> real) \<Rightarrow>
   mqtt_status \<Rightarrow> mqtt_input list \<Rightarrow> mqtt_status" where
  "mqtt_run decode fsub self inputs = foldl (mqtt_step decode fsub) self inputs"

text \<open>
  The class attributes as the source initialises them, for an enabled module with the
  given topic prefix.
\<close>

definition mqtt_initial :: "pyval \<Rightarrow> mqtt_status" where
  "mqtt_initial prefix =
     \<lparr> connectionState = 0, msgQueue = [], msgQueueBuffer = [], msgQueueMax = 16,
       msgRate = Map.empty, msgRatePerTopic = 60, password = PNone, status = True,
       topicPrefix = prefix, username = PNone \<rparr>"

text \<open>
  An identifier of one byte decodes to the one character with that code; this decoder
  stands for \<open>bytes.decode("utf-8")\<close> on the ASCII identifiers of the examples.
\<close>

definition ascii_decode :: "8 word list \<Rightarrow> string option" where
  "ascii_decode bs =
     (if list_all (\<lambda>b. b < 128) bs then Some (map (\<lambda>b. char_of (unat b)) bs) else None)"

section \<open>Inputs of the examples\<close>

text \<open>
  The configuration of the module's documentation, with the port and the duration address
  left open, and a check of the gateway address that accepts the documented one.
\<close>

definition example_config :: "pyval \<Rightarrow> pyval \<Rightarrow> knx_config" where
  "example_config port duration_address =
     \<lparr> cfg_enabled = True, cfg_gatewayIP = PStr ''172.16.0.1'', cfg_gatewayPort = port,
       cfg_chargeNowDurationAddress = duration_address,
       cfg_chargeNowRateAddress = PStr ''1/1/11'',
       cfg_chargeNowDurationDefault = PStr ''3600'' \<rparr>"

definition example_ip_ok :: "pyval \<Rightarrow> bool" where
  "example_ip_ok v = (v = PStr ''172.16.0.1'')"

text \<open>The listener that this configuration gives, and a write telegram to an address.\<close>

definition example_control :: knx_control where
  "example_control =
     \<lparr> gatewayIP = PStr ''172.16.0.1'', gatewayPort = PStr ''6720'',
       chargeNowDurationAddress = GroupAddress 1 1 10,
       chargeNowRateAddress = GroupAddress 1 1 11,
       chargeNowDuration = PStr ''3600'' \<rparr>"

definition write_to :: "address \<Rightarrow> 8 word list \<Rightarrow> packet" where
  "write_to a v = \<lparr> dst = a, payload = KNXGroupAPDU WRITE v \<rparr>"

text \<open>
  Decoders for the examples: two bytes as a big-endian unsigned number, and the four-byte
  encodings of 7.9 (rounded to 32 bits), of zero and of plus infinity.
\<close>

fun example_UINT16 :: "8 word list \<Rightarrow> error + int" where
  "example_UINT16 [hi, lo] = Inr (256 * uint hi + uint lo)"
| "example_UINT16 _ = Inl StructError"

definition example_FLOAT32 :: "8 word list \<Rightarrow> error + pyfloat" where
  "example_FLOAT32 v =
     (if v = [0x40, 0xFC, 0xCC, 0xCD] then Inr (FNum (16567501 / 2097152))
      else if v = [0, 0, 0, 0] then Inr (FNum 0)
      else if v = [0x7F, 0x80, 0, 0] then Inr FInf
      else Inl StructError)"

text \<open>
  The readings of the examples (0, 30, 61, 100) and their differences are floats, so the
  floating-point subtraction of two of them is their exact difference.
\<close>

definition exact_sub :: "real \<Rightarrow> real \<Rightarrow> real" where
  "exact_sub a b = a - b"

text \<open>
  Calls of \<open>setStatus\<close> for the device \<open>1\<close> and the key \<open>power\<close> at a given time,
  and calls with \<open>n\<close> different device identifiers, all at time 0, with the messages
  they build under the prefix \<open>TWC\<close>.
\<close>

definition power_call :: "real \<Rightarrow> connect_outcome \<Rightarrow> mqtt_input" where
  "power_call t outcome = CallSetStatus t t outcome [49] ''power'' (PInt 5)"

definition distinct_topic_calls :: "nat \<Rightarrow> mqtt_input list" where
  "distinct_topic_calls n =
     map (\<lambda>i. CallSetStatus 0 0 ConnectStarted [of_nat (65 + i)] ''k'' (PInt (int i))) [0 ..< n]"

definition distinct_topic_msgs :: "nat \<Rightarrow> mqtt_msg list" where
  "distinct_topic_msgs n =
     map (\<lambda>i. \<lparr> topic = ''TWC/'' @ [char_of (65 + i)] @ ''/k'', msg_payload = PInt (int i) \<rparr>)
       [0 ..< n]"

text \<open>
  A publisher that is connecting with two messages queued, and a transport whose
  \<open>publish\<close> raises \<open>TypeError\<close> on one topic.
\<close>

definition draining :: mqtt_status where
  "draining =
     (mqtt_initial (PStr ''TWC''))
       \<lparr> connectionState := 1,
         msgQueue := [\<lparr> topic = ''TWC/1/a'', msg_payload = PNone \<rparr>,
                      \<lparr> topic = ''TWC/1/b'', msg_payload = PInt 2 \<rparr>] \<rparr>"

definition fails_on :: "string \<Rightarrow> mqtt_msg \<Rightarrow> error option" where
  "fails_on tp m = (if topic m = tp then Some TypeError else None)"

section \<open>Properties of the validator\<close>

lemmas port_eval =
  is_valid_port_def py_int_str_def py_strip_def is_space_def unsigned_value_def
  is_digit_def digit_val_def

lemmas knx_eval = re_match_def knx_pattern_def is_digit_def

text \<open>
  C9 (the code departs from the claim). The claim: \<open>is_valid_port\<close> never raises, in
  particular not on a non-empty string that is no number, and returns a boolean in every
  case. The code converts such a string with an unguarded \<open>int(val)\<close>: on \<open>"abc"\<close>
  the \<open>ValueError\<close> of the conversion leaves the function.
\<close>

theorem is_valid_port_raises_on_text: "is_valid_port (PStr ''abc'') = Inl ValueError"
  by (simp add: port_eval)

text \<open>The cases of the unit test and of the specification, on which the function returns.\<close>

lemma is_valid_port_tests:
  "is_valid_port (PInt 1) = Inr True"
  "is_valid_port (PInt 65000) = Inr True"
  "is_valid_port (PInt 65536) = Inr False"
  "is_valid_port (PStr ''1'') = Inr True"
  "is_valid_port (PStr ''65000'') = Inr True"
  "is_valid_port (PStr ''65536'') = Inr False"
  "is_valid_port (PInt 0) = Inr False"
  "is_valid_port (PStr []) = Inr False"
  "is_valid_port PNone = Inr False"
  by (simp_all add: port_eval)

lemma is_valid_port_int: "is_valid_port (PInt n) = Inr (0 < n \<and> n < 65536)"
  by (simp add: is_valid_port_def)

lemma is_valid_port_str:
  "is_valid_port (PStr s) =
     (if s = [] then Inr False
      else case py_int_str s of None \<Rightarrow> Inl ValueError | Some n \<Rightarrow> Inr (0 < n \<and> n < 65536))"
  by (simp add: is_valid_port_def split: option.split)

subsection \<open>The matcher against the pattern in words\<close>

lemma le_length_takeWhile_take:
  "k \<le> length (takeWhile P (take hi s)) \<longleftrightarrow> k \<le> hi \<and> k \<le> length s \<and> list_all P (take k s)"
proof (induction s arbitrary: k hi)
  case Nil
  then show ?case by auto
next
  case (Cons x xs)
  show ?case
  proof (cases hi)
    case 0
    then show ?thesis by auto
  next
    case (Suc h)
    show ?thesis
    proof (cases k)
      case 0
      then show ?thesis by simp
    next
      case (Suc j)
      with \<open>hi = Suc h\<close> Cons.IH [of j h] show ?thesis by auto
    qed
  qed
qed

lemma match_item_Digits_iff:
  "r \<in> set (match_item (Digits lo hi) s) \<longleftrightarrow>
     (\<exists>a. s = a @ r \<and> lo \<le> length a \<and> length a \<le> hi \<and> list_all is_digit a)"
proof
  assume "r \<in> set (match_item (Digits lo hi) s)"
  then obtain k where k: "r = drop k s" "lo \<le> k" "k \<le> length (takeWhile is_digit (take hi s))"
    by (auto simp: Let_def)
  from k(3) have "k \<le> hi" "k \<le> length s" "list_all is_digit (take k s)"
    by (simp_all add: le_length_takeWhile_take)
  with k(1,2) have "s = take k s @ r \<and> lo \<le> length (take k s) \<and> length (take k s) \<le> hi
      \<and> list_all is_digit (take k s)"
    by simp
  then show "\<exists>a. s = a @ r \<and> lo \<le> length a \<and> length a \<le> hi \<and> list_all is_digit a"
    by blast
next
  assume "\<exists>a. s = a @ r \<and> lo \<le> length a \<and> length a \<le> hi \<and> list_all is_digit a"
  then obtain a where a: "s = a @ r" "lo \<le> length a" "length a \<le> hi" "list_all is_digit a"
    by blast
  then have "length a \<le> hi \<and> length a \<le> length s \<and> list_all is_digit (take (length a) s)"
    by simp
  then have "length a \<le> length (takeWhile is_digit (take hi s))"
    by (rule iffD2 [OF le_length_takeWhile_take])
  with a(2) have "length a \<in> {lo ..< Suc (length (takeWhile is_digit (take hi s)))}"
    by simp
  then have "drop (length a) s \<in> (\<lambda>k. drop k s) ` {lo ..< Suc (length (takeWhile is_digit (take hi s)))}"
    by (rule imageI)
  moreover from a(1) have "r = drop (length a) s" by simp
  ultimately show "r \<in> set (match_item (Digits lo hi) s)"
    by (simp add: Let_def del: upt_Suc)
qed

lemma match_item_Lit_iff: "r \<in> set (match_item (Lit c) s) \<longleftrightarrow> s = c # r"
  by (cases s) auto

lemma match_seq_Cons_iff:
  "r \<in> set (match_seq (i # is) s) \<longleftrightarrow> (\<exists>m. m \<in> set (match_item i s) \<and> r \<in> set (match_seq is m))"
  by auto

lemma re_match_iff: "re_match pat s \<noteq> None \<longleftrightarrow> (\<exists>r. r \<in> set (match_seq pat s))"
  by (cases "match_seq pat s") (auto simp: re_match_def)

lemma knx_pattern_iff: "re_match knx_pattern s \<noteq> None \<longleftrightarrow> knx_prefix_spec s"
proof
  assume "re_match knx_pattern s \<noteq> None"
  then obtain r where "r \<in> set (match_seq knx_pattern s)"
    unfolding re_match_iff by blast
  then obtain m1 m2 m3 m4 where
    m: "m1 \<in> set (match_item (Digits 1 3) s)" "m2 \<in> set (match_item (Lit CHR ''/'') m1)"
       "m3 \<in> set (match_item (Digits 1 3) m2)" "m4 \<in> set (match_item (Lit CHR ''/'') m3)"
       "r \<in> set (match_item (Digits 1 3) m4)"
    unfolding knx_pattern_def match_seq_Cons_iff by auto
  from m(1) obtain a where a: "s = a @ m1" "digit_group a"
    unfolding match_item_Digits_iff digit_group_def by auto
  from m(3) obtain b where b: "m2 = b @ m3" "digit_group b"
    unfolding match_item_Digits_iff digit_group_def by auto
  from m(5) obtain c where c: "m4 = c @ r" "digit_group c"
    unfolding match_item_Digits_iff digit_group_def by auto
  from m(2) m(4) have "m1 = CHR ''/'' # m2" "m3 = CHR ''/'' # m4"
    by (simp_all add: match_item_Lit_iff)
  with a b c have "s = a @ ''/'' @ b @ ''/'' @ c @ r" by simp
  with a b c show "knx_prefix_spec s" unfolding knx_prefix_spec_def by blast
next
  assume "knx_prefix_spec s"
  then obtain a b c r where s: "s = a @ ''/'' @ b @ ''/'' @ c @ r"
    and g: "digit_group a" "digit_group b" "digit_group c"
    unfolding knx_prefix_spec_def by blast
  have 5: "r \<in> set (match_item (Digits 1 3) (c @ r))"
    using g(3) unfolding match_item_Digits_iff digit_group_def by auto
  have 4: "c @ r \<in> set (match_item (Lit CHR ''/'') (''/'' @ c @ r))"
    by (simp add: match_item_Lit_iff)
  have 3: "''/'' @ c @ r \<in> set (match_item (Digits 1 3) (b @ ''/'' @ c @ r))"
    using g(2) unfolding match_item_Digits_iff digit_group_def by auto
  have 2: "b @ ''/'' @ c @ r \<in> set (match_item (Lit CHR ''/'') (''/'' @ b @ ''/'' @ c @ r))"
    by (simp add: match_item_Lit_iff)
  have 1: "''/'' @ b @ ''/'' @ c @ r \<in> set (match_item (Digits 1 3) s)"
    using g(1) s unfolding match_item_Digits_iff digit_group_def by auto
  have "r \<in> set (match_seq knx_pattern s)"
    unfolding knx_pattern_def match_seq_Cons_iff using 1 2 3 4 5 by (auto simp del: match_item.simps)
  then show "re_match knx_pattern s \<noteq> None"
    unfolding re_match_iff by blast
qed

lemma knx_prefix_spec_nonempty: "\<not> knx_prefix_spec []"
  by (simp add: knx_prefix_spec_def)

lemma knx_prefix_spec_append:
  assumes "knx_prefix_spec s"
  shows "knx_prefix_spec (s @ t)"
proof -
  from assms obtain a b c r where "s = a @ ''/'' @ b @ ''/'' @ c @ r"
    and g: "digit_group a" "digit_group b" "digit_group c"
    unfolding knx_prefix_spec_def by blast
  then have "s @ t = a @ ''/'' @ b @ ''/'' @ c @ (r @ t)" by simp
  with g show ?thesis unfolding knx_prefix_spec_def by blast
qed

lemma is_knx_address_str: "is_knx_address (PStr s) = Inr (knx_prefix_spec s)"
proof (cases "s = []")
  case True
  then show ?thesis by (simp add: knx_prefix_spec_nonempty)
next
  case False
  then show ?thesis by (simp only: is_knx_address.simps if_False knx_pattern_iff)
qed

text \<open>
  C10. For every string \<open>s\<close>, \<open>is_knx_address\<close> returns true exactly when \<open>s\<close> starts
  with three groups of one to three digits separated by slashes, so a string with such a
  prefix is accepted whatever follows it; the empty string and \<open>None\<close> give false, and
  the examples of the unit test come out as the specification lists them.
\<close>

theorem is_knx_address_matches_prefix:
  "is_knx_address (PStr s) = Inr (knx_prefix_spec s)
   \<and> (knx_prefix_spec s \<longrightarrow> is_knx_address (PStr (s @ garbage)) = Inr True)
   \<and> is_knx_address (PStr ''1/1/123'') = Inr True
   \<and> is_knx_address (PStr ''111/222/123'') = Inr True
   \<and> is_knx_address (PStr ''1/1111/123'') = Inr False
   \<and> is_knx_address (PStr ''1.1.123'') = Inr False
   \<and> is_knx_address (PStr []) = Inr False
   \<and> is_knx_address PNone = Inr False"
proof (intro conjI impI)
  show "is_knx_address (PStr s) = Inr (knx_prefix_spec s)"
    by (rule is_knx_address_str)
  show "is_knx_address (PStr (s @ garbage)) = Inr True" if "knx_prefix_spec s"
    using knx_prefix_spec_append [OF that, of garbage] by (simp only: is_knx_address_str)
  show "is_knx_address (PStr ''1/1/123'') = Inr True"
    and "is_knx_address (PStr ''111/222/123'') = Inr True"
    and "is_knx_address (PStr ''1/1111/123'') = Inr False"
    and "is_knx_address (PStr ''1.1.123'') = Inr False"
    and "is_knx_address (PStr []) = Inr False"
    and "is_knx_address PNone = Inr False"
    by (simp_all add: knx_eval)
qed

theorem is_knx_address_matches_prefix_witness:
  "knx_prefix_spec ''1/1/123'' \<and> is_knx_address (PStr ''1/1/123garbage'') = Inr True"
proof -
  have "re_match knx_pattern ''1/1/123'' \<noteq> None"
    by (simp add: knx_eval)
  then have p: "knx_prefix_spec ''1/1/123''"
    by (simp only: knx_pattern_iff)
  with is_knx_address_matches_prefix [of "''1/1/123''" "''garbage''"]
  have "is_knx_address (PStr (''1/1/123'' @ ''garbage'')) = Inr True"
    by blast
  with p show ?thesis by simp
qed

section \<open>Properties of the listener\<close>

subsection \<open>Construction\<close>

lemmas init_eval =
  knx_init_def is_properly_configured_def convert_address_def group_address_from_string_def
  example_config_def example_ip_ok_def

text \<open>
  C5, the claim as stated fails. It says that construction raises whenever the endpoint,
  the rate address or the duration address is malformed. With a valid endpoint and rate
  address and the duration address \<open>"1.1.10"\<close>, which \<open>is_knx_address\<close> rejects,
  construction succeeds and keeps the string as it is.
\<close>

theorem knx_init_accepts_bad_duration_address:
  "is_knx_address (PStr ''1.1.10'') = Inr False
   \<and> knx_init example_ip_ok (example_config (PStr ''6720'') (PStr ''1.1.10'')) =
       Inr (Started \<lparr> gatewayIP = PStr ''172.16.0.1'', gatewayPort = PStr ''6720'',
                      chargeNowDurationAddress = Unconverted (PStr ''1.1.10''),
                      chargeNowRateAddress = GroupAddress 1 1 11,
                      chargeNowDuration = PStr ''3600'' \<rparr>)"
  by (simp add: init_eval port_eval knx_eval)

lemma is_properly_configured_False_or_raises:
  assumes "\<not> ip_ok (cfg_gatewayIP cfg) \<or> is_valid_port (cfg_gatewayPort cfg) \<noteq> Inr True
            \<or> is_knx_address (cfg_chargeNowRateAddress cfg) \<noteq> Inr True"
  shows "is_properly_configured ip_ok cfg \<noteq> Inr True"
  using assms by (auto simp: is_properly_configured_def split: sum.splits bool.splits)

lemma convert_address_GroupAddress:
  assumes "convert_address v = Inr (GroupAddress a b c)"
  shows "is_knx_address v = Inr True"
  using assms by (auto simp: convert_address_def split: sum.splits bool.splits)

lemma Unconverted_matches_no_group_address:
  assumes "dst (p :: packet) = GroupAddress x y z"
  shows "\<not> is_valid_chargenow_cmd p (Unconverted v)"
  using assms by (simp add: is_valid_chargenow_cmd_def)

text \<open>
  C5 as amended. Construction of an enabled listener raises whenever the gateway address,
  the port or the rate address is invalid. The duration address is not validated: when
  \<open>is_knx_address\<close> returns false for it, the endpoint is valid and the rate address
  converts to a group address, construction succeeds and the attribute keeps the
  configured value unconverted, so that no telegram addressed to a group address is a
  valid command for it.
\<close>

theorem knx_init_rejects_bad_endpoint_or_rate_address:
  assumes "cfg_enabled cfg"
  shows "(\<not> ip_ok (cfg_gatewayIP cfg) \<or> is_valid_port (cfg_gatewayPort cfg) \<noteq> Inr True
            \<or> is_knx_address (cfg_chargeNowRateAddress cfg) \<noteq> Inr True
          \<longrightarrow> isl (knx_init ip_ok cfg))
       \<and> (ip_ok (cfg_gatewayIP cfg) \<and> is_valid_port (cfg_gatewayPort cfg) = Inr True
            \<and> convert_address (cfg_chargeNowRateAddress cfg) = Inr (GroupAddress a b c)
            \<and> is_knx_address (cfg_chargeNowDurationAddress cfg) = Inr False
          \<longrightarrow> knx_init ip_ok cfg =
                Inr (Started \<lparr> gatewayIP = cfg_gatewayIP cfg,
                               gatewayPort = cfg_gatewayPort cfg,
                               chargeNowDurationAddress =
                                 Unconverted (cfg_chargeNowDurationAddress cfg),
                               chargeNowRateAddress = GroupAddress a b c,
                               chargeNowDuration = cfg_chargeNowDurationDefault cfg \<rparr>)
              \<and> (\<forall>(p :: packet) x y z. dst p = GroupAddress x y z \<longrightarrow>
                    \<not> is_valid_chargenow_cmd p
                        (Unconverted (cfg_chargeNowDurationAddress cfg))))"
proof (intro conjI impI allI)
  assume bad: "\<not> ip_ok (cfg_gatewayIP cfg) \<or> is_valid_port (cfg_gatewayPort cfg) \<noteq> Inr True
            \<or> is_knx_address (cfg_chargeNowRateAddress cfg) \<noteq> Inr True"
  then have "is_properly_configured ip_ok cfg \<noteq> Inr True"
    by (rule is_properly_configured_False_or_raises)
  with assms show "isl (knx_init ip_ok cfg)"
    by (auto simp: knx_init_def split: sum.splits bool.splits)
next
  assume good: "ip_ok (cfg_gatewayIP cfg) \<and> is_valid_port (cfg_gatewayPort cfg) = Inr True
            \<and> convert_address (cfg_chargeNowRateAddress cfg) = Inr (GroupAddress a b c)
            \<and> is_knx_address (cfg_chargeNowDurationAddress cfg) = Inr False"
  then have rate: "is_knx_address (cfg_chargeNowRateAddress cfg) = Inr True"
    by (simp add: convert_address_GroupAddress)
  with good have "is_properly_configured ip_ok cfg = Inr True"
    by (simp add: is_properly_configured_def)
  moreover from good
  have "convert_address (cfg_chargeNowDurationAddress cfg) =
          Inr (Unconverted (cfg_chargeNowDurationAddress cfg))"
    by (simp add: convert_address_def)
  ultimately show "knx_init ip_ok cfg =
                Inr (Started \<lparr> gatewayIP = cfg_gatewayIP cfg,
                               gatewayPort = cfg_gatewayPort cfg,
                               chargeNowDurationAddress =
                                 Unconverted (cfg_chargeNowDurationAddress cfg),
                               chargeNowRateAddress = GroupAddress a b c,
                               chargeNowDuration = cfg_chargeNowDurationDefault cfg \<rparr>)"
    using assms good by (simp add: knx_init_def)
next
  fix p :: packet and x y z
  assume "dst p = GroupAddress x y z"
  then show "\<not> is_valid_chargenow_cmd p (Unconverted (cfg_chargeNowDurationAddress cfg))"
    by (rule Unconverted_matches_no_group_address)
qed

text \<open>
  A port out of range makes construction raise \<open>RuntimeError\<close>. Without a duration
  address the documented configuration constructs, and a write to the address \<open>1/1/10\<close>
  is no valid command for the duration address it keeps.
\<close>

theorem knx_init_rejects_bad_port_witness:
  "cfg_enabled (example_config (PStr ''65536'') (PStr ''1/1/10''))
   \<and> is_valid_port (cfg_gatewayPort (example_config (PStr ''65536'') (PStr ''1/1/10''))) = Inr False
   \<and> knx_init example_ip_ok (example_config (PStr ''65536'') (PStr ''1/1/10'')) = Inl RuntimeError
   \<and> isl (knx_init example_ip_ok (example_config (PStr ''65536'') (PStr ''1/1/10'')))
   \<and> cfg_enabled (example_config (PStr ''6720'') PNone)
   \<and> is_knx_address (cfg_chargeNowDurationAddress (example_config (PStr ''6720'') PNone)) = Inr False
   \<and> convert_address (cfg_chargeNowRateAddress (example_config (PStr ''6720'') PNone))
       = Inr (GroupAddress 1 1 11)
   \<and> knx_init example_ip_ok (example_config (PStr ''6720'') PNone) =
       Inr (Started (example_control\<lparr>chargeNowDurationAddress := Unconverted PNone\<rparr>))
   \<and> \<not> is_valid_chargenow_cmd (write_to (GroupAddress 1 1 10) [0, 120]) (Unconverted PNone)"
proof -
  let ?bad = "example_config (PStr ''65536'') (PStr ''1/1/10'')"
  let ?good = "example_config (PStr ''6720'') PNone"
  have bad: "cfg_enabled ?bad" "is_valid_port (cfg_gatewayPort ?bad) = Inr False"
    by (simp_all add: example_config_def port_eval)
  from knx_init_rejects_bad_endpoint_or_rate_address [OF bad(1), of example_ip_ok] bad(2)
  have raises: "isl (knx_init example_ip_ok ?bad)"
    by simp
  have error: "knx_init example_ip_ok ?bad = Inl RuntimeError"
    by (simp add: init_eval port_eval knx_eval)
  have good: "cfg_enabled ?good" "example_ip_ok (cfg_gatewayIP ?good)"
    "is_valid_port (cfg_gatewayPort ?good) = Inr True"
    "convert_address (cfg_chargeNowRateAddress ?good) = Inr (GroupAddress 1 1 11)"
    "is_knx_address (cfg_chargeNowDurationAddress ?good) = Inr False"
    by (simp_all add: init_eval port_eval knx_eval)
  have telegram: "dst (write_to (GroupAddress 1 1 10) [0, 120]) = GroupAddress 1 1 10"
    by (simp add: write_to_def)
  from knx_init_rejects_bad_endpoint_or_rate_address [OF good(1), of example_ip_ok 1 1 11]
    good(2,3,4,5)
  have constructed: "knx_init example_ip_ok ?good =
      Inr (Started \<lparr> gatewayIP = cfg_gatewayIP ?good, gatewayPort = cfg_gatewayPort ?good,
                     chargeNowDurationAddress = Unconverted (cfg_chargeNowDurationAddress ?good),
                     chargeNowRateAddress = GroupAddress 1 1 11,
                     chargeNowDuration = cfg_chargeNowDurationDefault ?good \<rparr>)"
    and no_match: "\<forall>(p :: packet) x y z. dst p = GroupAddress x y z \<longrightarrow>
        \<not> is_valid_chargenow_cmd p (Unconverted (cfg_chargeNowDurationAddress ?good))"
    by blast+
  from no_match telegram
  have "\<not> is_valid_chargenow_cmd (write_to (GroupAddress 1 1 10) [0, 120])
          (Unconverted (cfg_chargeNowDurationAddress ?good))"
    by blast
  with bad raises error good constructed show ?thesis
    by (simp add: example_config_def example_control_def)
qed

subsection \<open>Telegram dispatch\<close>

text \<open>
  C1. Let the handler run on a telegram and return. If the telegram is a valid write to the
  rate address and its value decodes to a float that truncates to \<open>amps\<close>, the session
  calls are the reset alone when \<open>amps = 0\<close>, and otherwise \<open>setChargeNowTimeEnd\<close>
  with the stored duration followed by \<open>setChargeNowAmps amps\<close>; the rate address is
  looked at first, so this holds also when the duration address is the same. If it is a
  valid write to the duration address only and decodes to an unsigned number, the reset is
  called for a value \<open>\<le> 0\<close>, and otherwise the stored duration becomes the value and no
  session call is made. A telegram that matches neither address makes no session call and
  changes nothing. Session calls are the calls on the controller other than \<open>debugLog\<close>.
\<close>

theorem knx_packet_handler_dispatch:
  assumes "knx_packet_handler decode_FLOAT32 decode_UINT16 self p = (calls, result)"
  shows
    "(is_valid_chargenow_cmd p (chargeNowRateAddress self)
        \<and> decode_FLOAT32 (payload_value (payload p)) = Inr x \<and> py_trunc x = Inr amps
      \<longrightarrow> result = Inr self
          \<and> session_calls calls =
              (if amps = 0 then [ResetChargeNowAmps]
               else [SetChargeNowTimeEnd (chargeNowDuration self), SetChargeNowAmps amps]))
   \<and> (\<not> is_valid_chargenow_cmd p (chargeNowRateAddress self)
        \<and> is_valid_chargenow_cmd p (chargeNowDurationAddress self)
        \<and> decode_UINT16 (payload_value (payload p)) = Inr duration
      \<longrightarrow> (if duration \<le> 0
           then result = Inr self \<and> session_calls calls = [ResetChargeNowAmps]
           else result = Inr (self\<lparr>chargeNowDuration := PInt duration\<rparr>)
              \<and> session_calls calls = []))
   \<and> (\<not> is_valid_chargenow_cmd p (chargeNowRateAddress self)
        \<and> \<not> is_valid_chargenow_cmd p (chargeNowDurationAddress self)
      \<longrightarrow> result = Inr self \<and> session_calls calls = [])"
proof (intro conjI impI)
  assume "is_valid_chargenow_cmd p (chargeNowRateAddress self)
        \<and> decode_FLOAT32 (payload_value (payload p)) = Inr x \<and> py_trunc x = Inr amps"
  with assms show "result = Inr self"
    and "session_calls calls =
              (if amps = 0 then [ResetChargeNowAmps]
               else [SetChargeNowTimeEnd (chargeNowDuration self), SetChargeNowAmps amps])"
    by (auto simp: knx_packet_handler_def session_calls_def Let_def split: if_splits)
next
  assume "\<not> is_valid_chargenow_cmd p (chargeNowRateAddress self)
        \<and> is_valid_chargenow_cmd p (chargeNowDurationAddress self)
        \<and> decode_UINT16 (payload_value (payload p)) = Inr duration"
  with assms show "if duration \<le> 0
           then result = Inr self \<and> session_calls calls = [ResetChargeNowAmps]
           else result = Inr (self\<lparr>chargeNowDuration := PInt duration\<rparr>)
              \<and> session_calls calls = []"
    by (auto simp: knx_packet_handler_def session_calls_def Let_def split: if_splits)
next
  assume "\<not> is_valid_chargenow_cmd p (chargeNowRateAddress self)
        \<and> \<not> is_valid_chargenow_cmd p (chargeNowDurationAddress self)"
  with assms show "result = Inr self" and "session_calls calls = []"
    by (auto simp: knx_packet_handler_def session_calls_def Let_def)
qed

lemmas handler_eval =
  knx_packet_handler_def is_valid_chargenow_cmd_def example_control_def write_to_def
  example_FLOAT32_def session_calls_def

theorem knx_packet_handler_dispatch_witness:
  "is_valid_chargenow_cmd (write_to (GroupAddress 1 1 11) [0x40, 0xFC, 0xCC, 0xCD])
      (chargeNowRateAddress example_control)
   \<and> py_trunc (FNum (16567501 / 2097152)) = Inr 7
   \<and> session_calls (fst (knx_packet_handler example_FLOAT32 example_UINT16 example_control
        (write_to (GroupAddress 1 1 11) [0x40, 0xFC, 0xCC, 0xCD])))
      = [SetChargeNowTimeEnd (PStr ''3600''), SetChargeNowAmps 7]
   \<and> session_calls (fst (knx_packet_handler example_FLOAT32 example_UINT16 example_control
        (write_to (GroupAddress 1 1 11) [0, 0, 0, 0])))
      = [ResetChargeNowAmps]
   \<and> knx_packet_handler example_FLOAT32 example_UINT16 example_control
        (write_to (GroupAddress 1 1 10) [0, 120])
      = ([DebugLog 11, DebugLog 11, DebugLog 8],
         Inr (example_control\<lparr>chargeNowDuration := PInt 120\<rparr>))
   \<and> session_calls (fst (knx_packet_handler example_FLOAT32 example_UINT16 example_control
        (write_to (GroupAddress 1 1 10) [0, 0])))
      = [ResetChargeNowAmps]
   \<and> session_calls (fst (knx_packet_handler example_FLOAT32 example_UINT16 example_control
        (write_to (GroupAddress 1 1 12) [0, 120])))
      = []"
  using knx_packet_handler_dispatch
    [of example_FLOAT32 example_UINT16 example_control
        "write_to (GroupAddress 1 1 11) [0x40, 0xFC, 0xCC, 0xCD]"
        "fst (knx_packet_handler example_FLOAT32 example_UINT16 example_control
               (write_to (GroupAddress 1 1 11) [0x40, 0xFC, 0xCC, 0xCD]))"
        "snd (knx_packet_handler example_FLOAT32 example_UINT16 example_control
               (write_to (GroupAddress 1 1 11) [0x40, 0xFC, 0xCC, 0xCD]))"
        "FNum (16567501 / 2097152)" 7 120]
  by (simp add: handler_eval)

subsection \<open>The reconnect loop\<close>

text \<open>The events of one pass: those of the \<open>try\<close> block, then those of the handler.\<close>

lemma while_True_Running:
  "while_True fuel env (Running i tr) =
     Running (i + fuel)
       (tr @ concat (map (\<lambda>k. try_events (env k) @ except_events (raised (env k)))
                      [i ..< i + fuel]))"
proof (induction fuel arbitrary: i tr)
  case 0
  then show ?case by simp
next
  case (Suc fuel)
  have "[i ..< i + Suc fuel] = i # [Suc i ..< Suc i + fuel]"
    by (simp add: upt_conv_Cons)
  then show ?case
    by (simp only: while_True.simps Suc.IH) simp
qed

lemma knx_server_loop_Running:
  "knx_server_loop fuel env =
     Running fuel
       ([Log 8, CreateConnection, Log 8, RegisterHandler, Log 8]
        @ concat (map (\<lambda>k. try_events (env k) @ except_events (raised (env k))) [0 ..< fuel]))"
  using while_True_Running [of fuel env 0] by (simp add: knx_server_loop_def)

lemma events_two_more_passes:
  "events (knx_server_loop (Suc (Suc n)) env) =
     events (knx_server_loop n env)
     @ try_events (env n) @ except_events (raised (env n))
     @ try_events (env (Suc n)) @ except_events (raised (env (Suc n)))"
  by (simp add: knx_server_loop_Running)

lemma try_events_start: "\<exists>rest. try_events a @ handled = [Log 8, Connect] @ rest"
  by (cases a) simp_all

text \<open>
  C7. The reconnect loop does not return, whatever the gateway does and however many
  passes are allowed: with fuel for \<open>n\<close> passes it has made exactly \<open>n\<close> passes and is
  still running, so there is no maximum number of retries. When \<open>connect\<close> raises in
  pass \<open>n\<close>, the loop logs, sleeps 30 seconds for an error of the class \<open>OSError\<close>
  and 1 second for any other error, and then makes the next connect attempt. The same
  holds when the connected phase raises (\<open>open_group_socket\<close> or the awaited
  \<open>run_task\<close>): any error that is not of the class \<open>OSError\<close> is followed by a sleep
  of 1 second and the next connect attempt, an \<open>OSError\<close> there by a sleep of 30
  seconds. When \<open>run_task\<close> returns, the next connect attempt follows at once.
\<close>

theorem reconnect_loop_never_ends:
  "(\<exists>tr. knx_server_loop n env = Running n tr)
   \<and> (\<forall>e. env n = ConnectRaises e \<longrightarrow>
         (\<exists>rest. events (knx_server_loop (n + 2) env) =
            events (knx_server_loop n env)
            @ [Log 8, Connect, Log 2, Sleep (if is_OSError e then 30 else 1), Log 8, Connect]
            @ rest))
   \<and> (\<forall>e. env n = OpenSocketRaises e \<longrightarrow>
         (\<exists>rest. events (knx_server_loop (n + 2) env) =
            events (knx_server_loop n env)
            @ [Log 8, Connect, Log 8, CreateRunTask, Log 8, OpenGroupSocket,
               Log 2, Sleep (if is_OSError e then 30 else 1), Log 8, Connect]
            @ rest))
   \<and> (\<forall>e. env n = RunRaises e \<longrightarrow>
         (\<exists>rest. events (knx_server_loop (n + 2) env) =
            events (knx_server_loop n env)
            @ [Log 8, Connect, Log 8, CreateRunTask, Log 8, OpenGroupSocket, Log 8, AwaitRunTask,
               Log 2, Sleep (if is_OSError e then 30 else 1), Log 8, Connect]
            @ rest))
   \<and> (env n = RunReturns \<longrightarrow>
         (\<exists>rest. events (knx_server_loop (n + 2) env) =
            events (knx_server_loop n env)
            @ [Log 8, Connect, Log 8, CreateRunTask, Log 8, OpenGroupSocket, Log 8, AwaitRunTask,
               Log 8, Connect]
            @ rest))"
proof (intro conjI allI impI)
  show "\<exists>tr. knx_server_loop n env = Running n tr"
    by (simp add: knx_server_loop_Running)
next
  fix e
  assume a: "env n = ConnectRaises e"
  obtain rest where
    "try_events (env (Suc n)) @ except_events (raised (env (Suc n))) = [Log 8, Connect] @ rest"
    using try_events_start by blast
  with a have "events (knx_server_loop (n + 2) env) =
            events (knx_server_loop n env)
            @ [Log 8, Connect, Log 2, Sleep (if is_OSError e then 30 else 1), Log 8, Connect]
            @ rest"
    by (cases "is_OSError e") (simp_all add: events_two_more_passes)
  then show "\<exists>rest. events (knx_server_loop (n + 2) env) =
            events (knx_server_loop n env)
            @ [Log 8, Connect, Log 2, Sleep (if is_OSError e then 30 else 1), Log 8, Connect]
            @ rest" ..
next
  fix e
  assume a: "env n = OpenSocketRaises e"
  obtain rest where
    "try_events (env (Suc n)) @ except_events (raised (env (Suc n))) = [Log 8, Connect] @ rest"
    using try_events_start by blast
  with a have "events (knx_server_loop (n + 2) env) =
            events (knx_server_loop n env)
            @ [Log 8, Connect, Log 8, CreateRunTask, Log 8, OpenGroupSocket,
               Log 2, Sleep (if is_OSError e then 30 else 1), Log 8, Connect]
            @ rest"
    by (cases "is_OSError e") (simp_all add: events_two_more_passes)
  then show "\<exists>rest. events (knx_server_loop (n + 2) env) =
            events (knx_server_loop n env)
            @ [Log 8, Connect, Log 8, CreateRunTask, Log 8, OpenGroupSocket,
               Log 2, Sleep (if is_OSError e then 30 else 1), Log 8, Connect]
            @ rest" ..
next
  fix e
  assume a: "env n = RunRaises e"
  obtain rest where
    "try_events (env (Suc n)) @ except_events (raised (env (Suc n))) = [Log 8, Connect] @ rest"
    using try_events_start by blast
  with a have "events (knx_server_loop (n + 2) env) =
            events (knx_server_loop n env)
            @ [Log 8, Connect, Log 8, CreateRunTask, Log 8, OpenGroupSocket, Log 8, AwaitRunTask,
               Log 2, Sleep (if is_OSError e then 30 else 1), Log 8, Connect]
            @ rest"
    by (cases "is_OSError e") (simp_all add: events_two_more_passes)
  then show "\<exists>rest. events (knx_server_loop (n + 2) env) =
            events (knx_server_loop n env)
            @ [Log 8, Connect, Log 8, CreateRunTask, Log 8, OpenGroupSocket, Log 8, AwaitRunTask,
               Log 2, Sleep (if is_OSError e then 30 else 1), Log 8, Connect]
            @ rest" ..
next
  assume a: "env n = RunReturns"
  obtain rest where
    "try_events (env (Suc n)) @ except_events (raised (env (Suc n))) = [Log 8, Connect] @ rest"
    using try_events_start by blast
  with a have "events (knx_server_loop (n + 2) env) =
            events (knx_server_loop n env)
            @ [Log 8, Connect, Log 8, CreateRunTask, Log 8, OpenGroupSocket, Log 8, AwaitRunTask,
               Log 8, Connect]
            @ rest"
    by (cases "is_OSError e") (simp_all add: events_two_more_passes)
  then show "\<exists>rest. events (knx_server_loop (n + 2) env) =
            events (knx_server_loop n env)
            @ [Log 8, Connect, Log 8, CreateRunTask, Log 8, OpenGroupSocket, Log 8, AwaitRunTask,
               Log 8, Connect]
            @ rest" ..
qed

text \<open>
  A gateway that refuses every connection, and one whose stream breaks with a
  \<open>ValueError\<close> in the first pass and refuses afterwards.
\<close>

theorem reconnect_loop_never_ends_witness:
  "knx_server_loop 2 (\<lambda>i. ConnectRaises ConnectionRefusedError) =
     Running 2
       [Log 8, CreateConnection, Log 8, RegisterHandler, Log 8,
        Log 8, Connect, Log 2, Sleep 30, Log 8, Connect, Log 2, Sleep 30]
   \<and> knx_server_loop 2
        (\<lambda>i. if i = 0 then RunRaises ValueError else ConnectRaises OSError) =
     Running 2
       [Log 8, CreateConnection, Log 8, RegisterHandler, Log 8,
        Log 8, Connect, Log 8, CreateRunTask, Log 8, OpenGroupSocket, Log 8, AwaitRunTask,
        Log 2, Sleep 1, Log 8, Connect, Log 2, Sleep 30]
   \<and> (\<exists>rest. events (knx_server_loop 2 (\<lambda>i. ConnectRaises ConnectionRefusedError)) =
         events (knx_server_loop 0 (\<lambda>i. ConnectRaises ConnectionRefusedError))
         @ [Log 8, Connect, Log 2, Sleep 30, Log 8, Connect] @ rest)
   \<and> (\<exists>rest. events (knx_server_loop 2
            (\<lambda>i. if i = 0 then RunRaises ValueError else ConnectRaises OSError)) =
         events (knx_server_loop 0
            (\<lambda>i. if i = 0 then RunRaises ValueError else ConnectRaises OSError))
         @ [Log 8, Connect, Log 8, CreateRunTask, Log 8, OpenGroupSocket, Log 8, AwaitRunTask,
            Log 2, Sleep 1, Log 8, Connect] @ rest)"
proof -
  have run: "knx_server_loop 2 (\<lambda>i. ConnectRaises ConnectionRefusedError) =
     Running 2
       [Log 8, CreateConnection, Log 8, RegisterHandler, Log 8,
        Log 8, Connect, Log 2, Sleep 30, Log 8, Connect, Log 2, Sleep 30]"
    "knx_server_loop 2
        (\<lambda>i. if i = 0 then RunRaises ValueError else ConnectRaises OSError) =
     Running 2
       [Log 8, CreateConnection, Log 8, RegisterHandler, Log 8,
        Log 8, Connect, Log 8, CreateRunTask, Log 8, OpenGroupSocket, Log 8, AwaitRunTask,
        Log 2, Sleep 1, Log 8, Connect, Log 2, Sleep 30]"
    by (simp_all add: knx_server_loop_def numeral_2_eq_2)
  from reconnect_loop_never_ends [of 0 "\<lambda>i. ConnectRaises ConnectionRefusedError"]
  have first: "\<exists>rest. events (knx_server_loop 2 (\<lambda>i. ConnectRaises ConnectionRefusedError)) =
         events (knx_server_loop 0 (\<lambda>i. ConnectRaises ConnectionRefusedError))
         @ [Log 8, Connect, Log 2, Sleep 30, Log 8, Connect] @ rest"
    by (simp add: numeral_2_eq_2)
  from reconnect_loop_never_ends
    [of 0 "\<lambda>i. if i = 0 then RunRaises ValueError else ConnectRaises OSError"]
  have second: "\<exists>rest. events (knx_server_loop 2
            (\<lambda>i. if i = 0 then RunRaises ValueError else ConnectRaises OSError)) =
         events (knx_server_loop 0
            (\<lambda>i. if i = 0 then RunRaises ValueError else ConnectRaises OSError))
         @ [Log 8, Connect, Log 8, CreateRunTask, Log 8, OpenGroupSocket, Log 8, AwaitRunTask,
            Log 2, Sleep 1, Log 8, Connect] @ rest"
    by (simp add: numeral_2_eq_2)
  from run first second show ?thesis by (intro conjI)
qed

section \<open>Properties of the publisher\<close>

lemma ascii_decode_1: "ascii_decode [49] = Some ''1''"
  by code_simp

lemmas mqtt_eval =
  setStatus_def mqtt_initial_def make_topic_def ascii_decode_1 rate_limit_def enqueue_def
  try_connect_def del_prefix_def mqtt_run_def mqttConnected_def exact_sub_def

lemma msgQueue_enqueue:
  "msgQueue (enqueue self m) =
     (if msgQueueMax self + 8 < int (length (msgQueue self @ [m]))
      then del_prefix (msgQueueMax self) (msgQueue self @ [m])
      else msgQueue self @ [m])"
  by (simp add: enqueue_def Let_def)

lemma del_prefix_is_drop: "\<exists>n. del_prefix k xs = drop n xs"
  by (auto simp: del_prefix_def)

lemma del_prefix_keeps_suffix: "\<exists>old. xs = old @ del_prefix k xs"
proof -
  obtain n where "del_prefix k xs = drop n xs"
    using del_prefix_is_drop by blast
  then have "xs = take n xs @ del_prefix k xs" by simp
  then show ?thesis ..
qed

lemma enqueue_keeps_suffix: "\<exists>old. msgQueue self @ [m] = old @ msgQueue (enqueue self m)"
proof (cases "msgQueueMax self + 8 < int (length (msgQueue self @ [m]))")
  case True
  then show ?thesis
    using del_prefix_keeps_suffix [of "msgQueue self @ [m]" "msgQueueMax self"]
    by (simp only: msgQueue_enqueue if_True)
next
  case False
  then have "msgQueue self @ [m] = [] @ msgQueue (enqueue self m)"
    by (simp add: msgQueue_enqueue)
  then show ?thesis ..
qed

lemma last_del_prefix:
  assumes "k + 8 < int (length xs)" "xs \<noteq> []"
  shows "del_prefix k xs \<noteq> [] \<and> last (del_prefix k xs) = last xs"
proof (cases "0 \<le> k")
  case True
  with assms have "nat k < length xs" by linarith
  with True show ?thesis by (simp add: del_prefix_def)
next
  case False
  from assms(2) have "0 < length xs" by simp
  with False have "nat (int (length xs) + k) < length xs" by linarith
  with False show ?thesis by (simp add: del_prefix_def)
qed

lemma last_enqueue: "msgQueue (enqueue self m) \<noteq> [] \<and> last (msgQueue (enqueue self m)) = m"
  using last_del_prefix [of "msgQueueMax self" "msgQueue self @ [m]"]
  by (simp add: msgQueue_enqueue)

lemma enqueue_bound:
  assumes "0 < msgQueueMax self" "int (length (msgQueue self)) \<le> msgQueueMax self + 8"
  shows "int (length (msgQueue (enqueue self m))) \<le> msgQueueMax self + 8"
  using assms by (auto simp: msgQueue_enqueue del_prefix_def)

lemma msgQueueMax_enqueue: "msgQueueMax (enqueue self m) = msgQueueMax self"
  by (simp add: enqueue_def Let_def)

lemma try_connect_queue:
  "msgQueue (snd (try_connect outcome self)) = msgQueue self"
  "msgQueueMax (snd (try_connect outcome self)) = msgQueueMax self"
  "msgRate (snd (try_connect outcome self)) = msgRate self"
  by (simp_all add: try_connect_def split: connect_outcome.split)

text \<open>What a call of setStatus leaves in the queue: nothing new, or the enqueued message.\<close>

lemma setStatus_queue_cases:
  "snd (setStatus decode fsub t1 t2 outcome self twcid key val) = self
   \<or> (\<exists>tp rates. make_topic decode self twcid key = Inr tp
         \<and> rate_limit fsub t1 t2 self tp = Some rates
         \<and> snd (setStatus decode fsub t1 t2 outcome self twcid key val) =
             snd (try_connect outcome
               (enqueue (self\<lparr>msgRate := rates\<rparr>) \<lparr> topic = tp, msg_payload = val \<rparr>)))"
  by (auto simp: setStatus_def split: sum.splits option.splits)

lemma setStatus_bound:
  assumes "0 < msgQueueMax self" "int (length (msgQueue self)) \<le> msgQueueMax self + 8"
  shows "msgQueueMax (snd (setStatus decode fsub t1 t2 outcome self twcid key val)) = msgQueueMax self
       \<and> int (length (msgQueue (snd (setStatus decode fsub t1 t2 outcome self twcid key val))))
           \<le> msgQueueMax self + 8"
  using setStatus_queue_cases [of decode fsub t1 t2 outcome self twcid key val]
proof (elim disjE exE conjE)
  assume "snd (setStatus decode fsub t1 t2 outcome self twcid key val) = self"
  with assms show ?thesis by simp
next
  fix tp rates
  assume eq: "snd (setStatus decode fsub t1 t2 outcome self twcid key val) =
             snd (try_connect outcome
               (enqueue (self\<lparr>msgRate := rates\<rparr>) \<lparr> topic = tp, msg_payload = val \<rparr>))"
  from assms
  have "int (length (msgQueue (enqueue (self\<lparr>msgRate := rates\<rparr>) \<lparr> topic = tp, msg_payload = val \<rparr>)))
          \<le> msgQueueMax self + 8"
    using enqueue_bound [of "self\<lparr>msgRate := rates\<rparr>" "\<lparr> topic = tp, msg_payload = val \<rparr>"]
    by simp
  then show ?thesis
    by (simp add: eq try_connect_queue msgQueueMax_enqueue)
qed

lemma mqttConnected_bound:
  assumes "0 < msgQueueMax self"
  shows "msgQueueMax (fst (snd (mqttConnected publish self))) = msgQueueMax self
       \<and> msgQueue (fst (snd (mqttConnected publish self))) = []"
  by (simp add: mqttConnected_def Let_def split: prod.split option.split)

lemma mqtt_step_bound:
  assumes "0 < msgQueueMax self" "int (length (msgQueue self)) \<le> msgQueueMax self + 8"
  shows "msgQueueMax (mqtt_step decode fsub self i) = msgQueueMax self
       \<and> int (length (msgQueue (mqtt_step decode fsub self i))) \<le> msgQueueMax self + 8"
proof (cases i)
  case (CallSetStatus t1 t2 outcome twcid key val)
  with assms show ?thesis by (simp add: setStatus_bound)
next
  case (OnConnect publish)
  with assms show ?thesis by (simp add: mqttConnected_bound)
next
  case AsyncConnectFailed
  with assms show ?thesis by simp
qed

lemma mqtt_run_bound:
  assumes "0 < msgQueueMax self" "int (length (msgQueue self)) \<le> msgQueueMax self + 8"
  shows "msgQueueMax (mqtt_run decode fsub self inputs) = msgQueueMax self
       \<and> int (length (msgQueue (mqtt_run decode fsub self inputs))) \<le> msgQueueMax self + 8"
  using assms
proof (induction inputs arbitrary: self)
  case Nil
  then show ?case by (simp add: mqtt_run_def)
next
  case (Cons i inputs)
  from mqtt_step_bound [OF Cons.prems, of decode fsub i]
  have step: "msgQueueMax (mqtt_step decode fsub self i) = msgQueueMax self"
    "int (length (msgQueue (mqtt_step decode fsub self i))) \<le> msgQueueMax self + 8"
    by simp_all
  with Cons.prems have "0 < msgQueueMax (mqtt_step decode fsub self i)"
    "int (length (msgQueue (mqtt_step decode fsub self i))) \<le> msgQueueMax (mqtt_step decode fsub self i) + 8"
    by simp_all
  from Cons.IH [OF this] step show ?case
    by (simp add: mqtt_run_def)
qed





text \<open>
  C2 (the code departs from the claim). The claim: with the module enabled \<open>setStatus\<close>
  returns a boolean, true when the message is dampened and true when it is enqueued. The
  code returns \<open>True\<close> on the dampened path and \<open>False\<close> from the two handlers, and
  falls off its end after a normal enqueue: the first call on a fresh publisher enqueues
  its message, starts the connect attempt and returns \<open>None\<close>.
\<close>

theorem setStatus_enqueued_returns_None:
  "setStatus ascii_decode exact_sub 0 0 ConnectStarted (mqtt_initial (PStr ''TWC'')) [49] ''power'' (PInt 5)
     = (ReturnsNone,
        (mqtt_initial (PStr ''TWC''))
          \<lparr> connectionState := 1,
            msgQueue := [\<lparr> topic = ''TWC/1/power'', msg_payload = PInt 5 \<rparr>],
            msgRate := [''TWC/1/power'' \<mapsto> 0] \<rparr>)"
  by (simp add: mqtt_eval)




lemma thirty_messages:
  "msgQueue (mqtt_run ascii_decode exact_sub (mqtt_initial (PStr ''TWC'')) (distinct_topic_calls 30)) =
     drop 16 (distinct_topic_msgs 30)"
  by (simp add: distinct_topic_calls_def distinct_topic_msgs_def upt_conv_Cons mqtt_eval
      ascii_decode_def)

lemma length_distinct_topic_msgs: "length (distinct_topic_msgs n) = n"
  by (simp add: distinct_topic_msgs_def)

text \<open>
  C4. The enqueue step appends the message and, when the queue is then longer than
  \<open>msgQueueMax + 8\<close>, deletes its first \<open>msgQueueMax\<close> entries; every call of
  \<open>setStatus\<close> either changes nothing or leaves the queue of this step. What remains is
  a suffix of the appended queue and ends with the new message, so only the oldest entries
  are dropped. With a positive \<open>msgQueueMax\<close> (the class sets 16) a queue within
  \<open>msgQueueMax + 8\<close> stays within it through any sequence of calls and callbacks. From
  the fresh publisher, thirty calls with thirty different topics leave the last fourteen
  messages, which is at most 16.
\<close>

theorem queue_trimmed_to_newest:
  "msgQueue (enqueue self m) =
     (if msgQueueMax self + 8 < int (length (msgQueue self @ [m]))
      then del_prefix (msgQueueMax self) (msgQueue self @ [m])
      else msgQueue self @ [m])
   \<and> (0 \<le> msgQueueMax self \<longrightarrow>
        del_prefix (msgQueueMax self) (msgQueue self @ [m]) =
          drop (nat (msgQueueMax self)) (msgQueue self @ [m]))
   \<and> (snd (setStatus decode fsub t1 t2 outcome self twcid key val) = self
        \<or> (\<exists>tp rates. msgQueue (snd (setStatus decode fsub t1 t2 outcome self twcid key val)) =
              msgQueue (enqueue (self\<lparr>msgRate := rates\<rparr>) \<lparr> topic = tp, msg_payload = val \<rparr>)))
   \<and> (\<exists>old. msgQueue self @ [m] = old @ msgQueue (enqueue self m))
   \<and> msgQueue (enqueue self m) \<noteq> [] \<and> last (msgQueue (enqueue self m)) = m
   \<and> (0 < msgQueueMax self \<and> int (length (msgQueue self)) \<le> msgQueueMax self + 8 \<longrightarrow>
        int (length (msgQueue (mqtt_run decode fsub self inputs))) \<le> msgQueueMax self + 8)
   \<and> msgQueue (mqtt_run ascii_decode exact_sub (mqtt_initial (PStr ''TWC'')) (distinct_topic_calls 30)) =
        drop 16 (distinct_topic_msgs 30)
   \<and> length (drop 16 (distinct_topic_msgs 30)) \<le> 16"
proof (intro conjI impI)
  show "msgQueue (enqueue self m) =
     (if msgQueueMax self + 8 < int (length (msgQueue self @ [m]))
      then del_prefix (msgQueueMax self) (msgQueue self @ [m])
      else msgQueue self @ [m])"
    by (rule msgQueue_enqueue)
  show "del_prefix (msgQueueMax self) (msgQueue self @ [m]) =
          drop (nat (msgQueueMax self)) (msgQueue self @ [m])" if "0 \<le> msgQueueMax self"
    using that by (simp add: del_prefix_def)
  show "snd (setStatus decode fsub t1 t2 outcome self twcid key val) = self
        \<or> (\<exists>tp rates. msgQueue (snd (setStatus decode fsub t1 t2 outcome self twcid key val)) =
              msgQueue (enqueue (self\<lparr>msgRate := rates\<rparr>) \<lparr> topic = tp, msg_payload = val \<rparr>))"
    using setStatus_queue_cases [of decode fsub t1 t2 outcome self twcid key val]
  proof (elim disjE exE conjE)
    assume "snd (setStatus decode fsub t1 t2 outcome self twcid key val) = self"
    then show ?thesis ..
  next
    fix tp rates
    assume "snd (setStatus decode fsub t1 t2 outcome self twcid key val) =
             snd (try_connect outcome
               (enqueue (self\<lparr>msgRate := rates\<rparr>) \<lparr> topic = tp, msg_payload = val \<rparr>))"
    then have "msgQueue (snd (setStatus decode fsub t1 t2 outcome self twcid key val)) =
              msgQueue (enqueue (self\<lparr>msgRate := rates\<rparr>) \<lparr> topic = tp, msg_payload = val \<rparr>)"
      by (simp add: try_connect_queue)
    then show ?thesis by blast
  qed
  show "\<exists>old. msgQueue self @ [m] = old @ msgQueue (enqueue self m)"
    by (rule enqueue_keeps_suffix)
  show "msgQueue (enqueue self m) \<noteq> []" "last (msgQueue (enqueue self m)) = m"
    using last_enqueue [of self m] by simp_all
  show "int (length (msgQueue (mqtt_run decode fsub self inputs))) \<le> msgQueueMax self + 8"
    if "0 < msgQueueMax self \<and> int (length (msgQueue self)) \<le> msgQueueMax self + 8"
    using that mqtt_run_bound [of self decode fsub inputs] by simp
  show "msgQueue (mqtt_run ascii_decode exact_sub (mqtt_initial (PStr ''TWC'')) (distinct_topic_calls 30)) =
        drop 16 (distinct_topic_msgs 30)"
    by (rule thirty_messages)
  show "length (drop 16 (distinct_topic_msgs 30)) \<le> 16"
    by (simp add: length_distinct_topic_msgs)
qed

theorem queue_trimmed_to_newest_witness:
  "0 < msgQueueMax (mqtt_initial (PStr ''TWC''))
   \<and> msgQueue (mqtt_initial (PStr ''TWC'')) = []
   \<and> int (length (msgQueue (mqtt_run ascii_decode exact_sub (mqtt_initial (PStr ''TWC''))
        (distinct_topic_calls 30)))) \<le> 16 + 8
   \<and> length (msgQueue (mqtt_run ascii_decode exact_sub (mqtt_initial (PStr ''TWC''))
        (distinct_topic_calls 30))) = 14"
proof -
  have start: "0 < msgQueueMax (mqtt_initial (PStr ''TWC''))
      \<and> int (length (msgQueue (mqtt_initial (PStr ''TWC''))))
          \<le> msgQueueMax (mqtt_initial (PStr ''TWC'')) + 8"
    by (simp add: mqtt_initial_def)
  from queue_trimmed_to_newest
    [of "mqtt_initial (PStr ''TWC'')" "\<lparr> topic = ''TWC/A/k'', msg_payload = PInt 0 \<rparr>"
        ascii_decode exact_sub 0 0 ConnectStarted "[65]" "''k''" "PInt 0"
        "distinct_topic_calls 30"]
  have "0 < msgQueueMax (mqtt_initial (PStr ''TWC''))
      \<and> int (length (msgQueue (mqtt_initial (PStr ''TWC''))))
          \<le> msgQueueMax (mqtt_initial (PStr ''TWC'')) + 8 \<longrightarrow>
        int (length (msgQueue (mqtt_run ascii_decode exact_sub (mqtt_initial (PStr ''TWC''))
          (distinct_topic_calls 30)))) \<le> msgQueueMax (mqtt_initial (PStr ''TWC'')) + 8"
    and queue: "msgQueue (mqtt_run ascii_decode exact_sub (mqtt_initial (PStr ''TWC''))
          (distinct_topic_calls 30)) = drop 16 (distinct_topic_msgs 30)"
    by blast+
  with start have "int (length (msgQueue (mqtt_run ascii_decode exact_sub (mqtt_initial (PStr ''TWC''))
          (distinct_topic_calls 30)))) \<le> msgQueueMax (mqtt_initial (PStr ''TWC'')) + 8"
    by blast
  moreover have "msgQueueMax (mqtt_initial (PStr ''TWC'')) = 16"
    "msgQueue (mqtt_initial (PStr ''TWC'')) = []"
    by (simp_all add: mqtt_initial_def)
  ultimately show ?thesis
    by (simp add: queue length_distinct_topic_msgs)
qed

text \<open>
  C6 (the code departs from the claim). The claim: a failure of one \<open>publish\<close> during
  the drain is caught and logged, the other messages are still published and the callback
  completes. The handler is written \<open>except e:\<close> with \<open>e\<close> unbound, so it catches
  nothing: with two messages queued and a \<open>publish\<close> that fails on the first, the
  callback is left by \<open>NameError\<close>, the second message is never published, the buffer
  is not cleared, the state stays 1 and the client is not disconnected.
\<close>

theorem mqttConnected_publish_failure_propagates:
  "mqttConnected (fails_on ''TWC/1/a'') draining =
     (Raises NameError,
      draining \<lparr> msgQueueBuffer := msgQueue draining, msgQueue := [] \<rparr>,
      [PublishFailed \<lparr> topic = ''TWC/1/a'', msg_payload = PNone \<rparr>])
   \<and> connectionState (fst (snd (mqttConnected (fails_on ''TWC/1/a'') draining))) = 1"
  by (simp add: mqttConnected_def draining_def fails_on_def mqtt_initial_def)

text \<open>
  C8, the claim as stated fails. It says that the state returns to Idle after every failed
  connect attempt, also one that fails after the asynchronous attempt was started. After a
  first call has started the attempt the state is 1; the failure of the attempt runs no
  code of the module, so the state is still 1, and it is still 1 after a later call of
  \<open>setStatus\<close>, which makes no new attempt.
\<close>

theorem async_connect_failure_leaves_Connecting:
  "connectionState (mqtt_run ascii_decode exact_sub (mqtt_initial (PStr ''TWC''))
      [power_call 0 ConnectStarted, AsyncConnectFailed]) = 1
   \<and> connectionState (mqtt_run ascii_decode exact_sub (mqtt_initial (PStr ''TWC''))
      [power_call 0 ConnectStarted, AsyncConnectFailed, power_call 100 ConnectStarted]) = 1"
  by (simp add: power_call_def mqtt_eval)

lemma publish_all_ok:
  assumes "\<forall>m \<in> set ms. publish m = None"
  shows "publish_all publish ms = (map Publish ms, None)"
  using assms by (induction ms) simp_all

lemma publish_all_raises:
  assumes "\<not> (\<forall>m \<in> set ms. publish m = None)"
  shows "snd (publish_all publish ms) = Some NameError"
  using assms
proof (induction ms)
  case Nil
  then show ?case by simp
next
  case (Cons m ms)
  show ?case
  proof (cases "publish m")
    case None
    with Cons.prems have "\<not> (\<forall>m \<in> set ms. publish m = None)" by simp
    then have "snd (publish_all publish ms) = Some NameError" by (rule Cons.IH)
    with None show ?thesis by (simp add: split_beta)
  next
    case (Some e)
    then show ?thesis by simp
  qed
qed

lemma connectionState_enqueue: "connectionState (enqueue self m) = connectionState self"
  by (simp add: enqueue_def Let_def)

lemma connectionState_try_connect:
  "connectionState self \<noteq> 0 \<Longrightarrow> connectionState (snd (try_connect outcome self)) = connectionState self"
  by (simp add: try_connect_def)

text \<open>A call of \<open>setStatus\<close> never takes the state from Connecting back to Idle.\<close>

lemma connectionState_setStatus:
  assumes "connectionState self \<noteq> 0"
  shows "connectionState (snd (setStatus decode fsub t1 t2 outcome self twcid key val)) =
           connectionState self"
  using setStatus_queue_cases [of decode fsub t1 t2 outcome self twcid key val]
proof (elim disjE exE conjE)
  assume "snd (setStatus decode fsub t1 t2 outcome self twcid key val) = self"
  then show ?thesis by simp
next
  fix tp rates
  assume eq: "snd (setStatus decode fsub t1 t2 outcome self twcid key val) =
             snd (try_connect outcome
               (enqueue (self\<lparr>msgRate := rates\<rparr>) \<lparr> topic = tp, msg_payload = val \<rparr>))"
  from assms have "connectionState
      (enqueue (self\<lparr>msgRate := rates\<rparr>) \<lparr> topic = tp, msg_payload = val \<rparr>) \<noteq> 0"
    by (simp add: connectionState_enqueue)
  then show ?thesis
    by (simp add: eq connectionState_try_connect connectionState_enqueue)
qed

text \<open>The callback sets the state to Idle exactly when no \<open>publish\<close> of its drain raises.\<close>

lemma connectionState_mqttConnected:
  "connectionState (fst (snd (mqttConnected publish self))) =
     (if \<forall>m \<in> set (msgQueue self). publish m = None then 0 else connectionState self)"
proof (cases "\<forall>m \<in> set (msgQueue self). publish m = None")
  case True
  then have "publish_all publish (msgQueue self) = (map Publish (msgQueue self), None)"
    by (rule publish_all_ok)
  with True show ?thesis by (simp add: mqttConnected_def)
next
  case False
  then have "snd (publish_all publish (msgQueue self)) = Some NameError"
    by (rule publish_all_raises)
  then obtain evs where "publish_all publish (msgQueue self) = (evs, Some NameError)"
    by (cases "publish_all publish (msgQueue self)") simp
  then have "connectionState (fst (snd (mqttConnected publish self))) = connectionState self"
    by (simp add: mqttConnected_def)
  with False show ?thesis by (simp only: if_False)
qed

lemma only_the_callback_returns_to_Idle:
  assumes "connectionState self \<noteq> 0"
  shows "connectionState (mqtt_step decode fsub self i) = 0 \<longleftrightarrow>
           (\<exists>publish. i = OnConnect publish \<and> (\<forall>m \<in> set (msgQueue self). publish m = None))"
proof (cases i)
  case (CallSetStatus t1 t2 outcome twcid key val)
  with assms show ?thesis by (simp add: connectionState_setStatus)
next
  case (OnConnect publish)
  with assms show ?thesis by (simp add: connectionState_mqttConnected)
next
  case AsyncConnectFailed
  with assms show ?thesis by simp
qed

text \<open>
  C8 as amended. When the connect attempt of a call made in state Idle raises before the
  state is assigned, the state is Idle after the call and the call returns \<open>False\<close> for
  an error of the class \<open>OSError\<close>; a later call of \<open>setStatus\<close> in the state that the
  failed call left, if it is not dampened, makes a new attempt, and the state is 1 when the
  transport starts. From the state Connecting the state returns to Idle only through the
  connect callback, and exactly when no \<open>publish\<close> of its drain raises; a completed
  drain sets the state to Idle from any state. The failure of the asynchronous attempt
  changes no attribute.
\<close>

theorem sync_connect_failure_stays_Idle:
  assumes "connectionState self = 0"
  shows
    "connectionState
       (snd (setStatus decode fsub t1 t2 (RaisedBeforeConnecting e) self twcid key val)) = 0
   \<and> (status self \<and> make_topic decode self twcid key = Inr tp
        \<and> rate_limit fsub t1 t2 self tp = Some rates \<longrightarrow>
        fst (setStatus decode fsub t1 t2 (RaisedBeforeConnecting e) self twcid key val)
          = (if is_OSError e then Returns False else Raises e)
      \<and> connectionState (snd (setStatus decode fsub t1 t2 ConnectStarted self twcid key val)) = 1)
   \<and> (status (snd (setStatus decode fsub t1 t2 (RaisedBeforeConnecting e) self twcid key val))
        \<and> make_topic decode
             (snd (setStatus decode fsub t1 t2 (RaisedBeforeConnecting e) self twcid key val))
             twcid' key' = Inr tp'
        \<and> rate_limit fsub t3 t4
             (snd (setStatus decode fsub t1 t2 (RaisedBeforeConnecting e) self twcid key val))
             tp' = Some rates' \<longrightarrow>
        connectionState
          (snd (setStatus decode fsub t3 t4 ConnectStarted
             (snd (setStatus decode fsub t1 t2 (RaisedBeforeConnecting e) self twcid key val))
             twcid' key' val')) = 1)
   \<and> ((\<forall>m \<in> set (msgQueue self'). publish m = None) \<longrightarrow>
        connectionState (fst (snd (mqttConnected publish self'))) = 0)
   \<and> (connectionState self' \<noteq> 0 \<longrightarrow>
        (connectionState (mqtt_step decode fsub self' i) = 0 \<longleftrightarrow>
           (\<exists>publish. i = OnConnect publish
              \<and> (\<forall>m \<in> set (msgQueue self'). publish m = None))))
   \<and> mqtt_step decode fsub self' AsyncConnectFailed = self'"
proof (intro conjI impI)
  show idle: "connectionState
       (snd (setStatus decode fsub t1 t2 (RaisedBeforeConnecting e) self twcid key val)) = 0"
    using assms
    by (simp add: setStatus_def try_connect_def connectionState_enqueue
        split: sum.split option.split)
  {
    assume a: "status self \<and> make_topic decode self twcid key = Inr tp
        \<and> rate_limit fsub t1 t2 self tp = Some rates"
    with assms
    show "fst (setStatus decode fsub t1 t2 (RaisedBeforeConnecting e) self twcid key val)
          = (if is_OSError e then Returns False else Raises e)"
      by (simp add: setStatus_def try_connect_def connectionState_enqueue)
    from a assms
    show "connectionState (snd (setStatus decode fsub t1 t2 ConnectStarted self twcid key val)) = 1"
      by (simp add: setStatus_def try_connect_def connectionState_enqueue)
  }
  {
    let ?self1 = "snd (setStatus decode fsub t1 t2 (RaisedBeforeConnecting e) self twcid key val)"
    assume "status ?self1 \<and> make_topic decode ?self1 twcid' key' = Inr tp'
        \<and> rate_limit fsub t3 t4 ?self1 tp' = Some rates'"
    with idle
    show "connectionState (snd (setStatus decode fsub t3 t4 ConnectStarted ?self1 twcid' key' val')) = 1"
      by (simp add: setStatus_def try_connect_def connectionState_enqueue)
  }
  {
    assume "\<forall>m \<in> set (msgQueue self'). publish m = None"
    then show "connectionState (fst (snd (mqttConnected publish self'))) = 0"
      by (simp add: connectionState_mqttConnected)
  }
  {
    assume "connectionState self' \<noteq> 0"
    then show "connectionState (mqtt_step decode fsub self' i) = 0 \<longleftrightarrow>
           (\<exists>publish. i = OnConnect publish
              \<and> (\<forall>m \<in> set (msgQueue self'). publish m = None))"
      by (rule only_the_callback_returns_to_Idle)
  }
  show "mqtt_step decode fsub self' AsyncConnectFailed = self'"
    by simp
qed

text \<open>
  A refused connection on the first call of a fresh publisher: the call returns
  \<open>False\<close> with the message queued and the state Idle, and the next call, 100 seconds
  later, starts a new attempt. The callback with a transport that publishes both queued
  messages sets the state to Idle; one that fails on the first message does not, and
  neither does the failure of the asynchronous attempt.
\<close>

theorem sync_connect_failure_stays_Idle_witness:
  "connectionState (mqtt_initial (PStr ''TWC'')) = 0
   \<and> setStatus ascii_decode exact_sub 0 0 (RaisedBeforeConnecting ConnectionRefusedError)
        (mqtt_initial (PStr ''TWC'')) [49] ''power'' (PInt 5)
      = (Returns False,
         (mqtt_initial (PStr ''TWC''))
           \<lparr> msgQueue := [\<lparr> topic = ''TWC/1/power'', msg_payload = PInt 5 \<rparr>],
             msgRate := [''TWC/1/power'' \<mapsto> 0] \<rparr>)
   \<and> connectionState (snd (setStatus ascii_decode exact_sub 100 100 ConnectStarted
        (snd (setStatus ascii_decode exact_sub 0 0 (RaisedBeforeConnecting ConnectionRefusedError)
               (mqtt_initial (PStr ''TWC'')) [49] ''power'' (PInt 5)))
        [49] ''power'' (PInt 6))) = 1
   \<and> connectionState draining = 1
   \<and> connectionState (fst (snd (mqttConnected (fails_on ''TWC/1/c'') draining))) = 0
   \<and> connectionState (mqtt_step ascii_decode exact_sub draining (OnConnect (fails_on ''TWC/1/a''))) = 1
   \<and> connectionState (mqtt_step ascii_decode exact_sub draining AsyncConnectFailed) = 1"
proof -
  let ?self1 = "snd (setStatus ascii_decode exact_sub 0 0
      (RaisedBeforeConnecting ConnectionRefusedError)
      (mqtt_initial (PStr ''TWC'')) [49] ''power'' (PInt 5))"
  have failed: "setStatus ascii_decode exact_sub 0 0 (RaisedBeforeConnecting ConnectionRefusedError)
        (mqtt_initial (PStr ''TWC'')) [49] ''power'' (PInt 5)
      = (Returns False,
         (mqtt_initial (PStr ''TWC''))
           \<lparr> msgQueue := [\<lparr> topic = ''TWC/1/power'', msg_payload = PInt 5 \<rparr>],
             msgRate := [''TWC/1/power'' \<mapsto> 0] \<rparr>)"
    by (simp add: mqtt_eval)
  have pre: "connectionState (mqtt_initial (PStr ''TWC'')) = 0"
    "status ?self1"
    "make_topic ascii_decode ?self1 [49] ''power'' = Inr ''TWC/1/power''"
    "rate_limit exact_sub 100 100 ?self1 ''TWC/1/power'' = Some [''TWC/1/power'' \<mapsto> 100]"
    unfolding failed
    by (simp_all add: mqtt_initial_def make_topic_def ascii_decode_1 rate_limit_def exact_sub_def)
  have ok: "\<forall>m \<in> set (msgQueue draining). fails_on ''TWC/1/c'' m = None"
    and connecting: "connectionState draining = 1"
    and bad: "\<not> (\<exists>publish. OnConnect (fails_on ''TWC/1/a'') = OnConnect publish
              \<and> (\<forall>m \<in> set (msgQueue draining). publish m = None))"
    by (simp_all add: draining_def fails_on_def mqtt_initial_def)
  note inst = sync_connect_failure_stays_Idle
    [OF pre(1), of ascii_decode exact_sub 0 0 ConnectionRefusedError "[49]" "''power''" "PInt 5"
       "''TWC/1/power''" "[''TWC/1/power'' \<mapsto> 0]" "[49]" "''power''" "''TWC/1/power''"
       100 100 "[''TWC/1/power'' \<mapsto> 100]" "PInt 6" draining "fails_on ''TWC/1/c''"
       "OnConnect (fails_on ''TWC/1/a'')"]
  from inst pre(2,3,4)
  have later: "connectionState (snd (setStatus ascii_decode exact_sub 100 100 ConnectStarted
        ?self1 [49] ''power'' (PInt 6))) = 1"
    by blast
  from inst ok
  have drained: "connectionState (fst (snd (mqttConnected (fails_on ''TWC/1/c'') draining))) = 0"
    by blast
  from inst connecting bad
  have stuck: "connectionState
      (mqtt_step ascii_decode exact_sub draining (OnConnect (fails_on ''TWC/1/a''))) \<noteq> 0"
    by simp
  have "connectionState
      (mqtt_step ascii_decode exact_sub draining (OnConnect (fails_on ''TWC/1/a''))) = 1"
    by (simp add: connectionState_mqttConnected draining_def fails_on_def mqtt_initial_def)
  with pre(1) failed later connecting drained show ?thesis
    by (simp add: connecting)
qed

end
